theory Spec2Isabelle
  imports Complex_Main
begin

section \<open>Python values the sources compute with\<close>

text \<open>
  The four sources are Python. Exceptions are values of \<open>exn\<close>; a call that can raise
  returns \<open>exn + 'a\<close> with \<open>Inl\<close> for the exception.
\<close>

datatype exn =
    IOError string
  | ZeroDivisionError
  | OverflowError
  | ValueError
  | AttributeError string
  | NameError string
  | TypeError
  | OtherError string

subsection \<open>Floats: IEEE 754 binary64 with round to nearest, ties to even\<close>

text \<open>
  A Python \<open>float\<close> is a binary64 number. \<open>Finite q\<close> carries the exact value of a
  finite float; the sign of zero is not represented (\<open>-0.0 == 0.0\<close> in Python, and no
  source here tells them apart). \<open>round64\<close> maps the exact result of an operation to the
  float the hardware returns: the nearest value with a 53 bit significand and an exponent
  of at least \<open>-1022\<close> (subnormals below), ties to the even significand, and infinity from
  \<open>2^1024 - 2^970\<close> on (half a unit in the last place above the largest float).
\<close>

datatype double = Finite real | PosInf | NegInf | NaN

fun bit_length :: "nat \<Rightarrow> nat" where
  "bit_length n = (if n = 0 then 0 else Suc (bit_length (n div 2)))"

declare bit_length.simps [simp del]

definition pow2 :: "int \<Rightarrow> real" where
  "pow2 e = (if 0 \<le> e then 2 ^ nat e else 1 / 2 ^ nat (- e))"

definition ilog2 :: "real \<Rightarrow> int" where
  \<comment> \<open>for \<open>0 < a\<close>, the \<open>e\<close> with \<open>2^e \<le> a < 2^(e+1)\<close>\<close>
  "ilog2 a = (if 1 \<le> a then int (bit_length (nat \<lfloor>a\<rfloor>)) - 1
              else - int (bit_length (nat (\<lceil>1 / a\<rceil> - 1))))"

definition round_half_even :: "real \<Rightarrow> int" where
  "round_half_even q =
     (let f = \<lfloor>q\<rfloor>; r = q - of_int f
      in if r < 1 / 2 then f else if 1 / 2 < r then f + 1 else if even f then f else f + 1)"

definition round64 :: "real \<Rightarrow> double" where
  "round64 q =
     (if q = 0 then Finite 0
      else if 2 ^ 1024 - 2 ^ 970 \<le> \<bar>q\<bar> then (if 0 < q then PosInf else NegInf)
      else let a = \<bar>q\<bar>;
               u = pow2 (max (ilog2 a) (- 1022) - 52);
               r = of_int (round_half_even (a / u)) * u
           in Finite (if 0 < q then r else - r))"

fun fsign :: "double \<Rightarrow> int" where
  "fsign (Finite x) = (if 0 < x then 1 else if x < 0 then - 1 else 0)"
| "fsign PosInf = 1"
| "fsign NegInf = - 1"
| "fsign NaN = 0"

text \<open>Python's float operators. Only division raises; overflow gives an infinity.\<close>

fun fneg :: "double \<Rightarrow> double" where
  "fneg (Finite x) = Finite (- x)"
| "fneg PosInf = NegInf"
| "fneg NegInf = PosInf"
| "fneg NaN = NaN"

definition fadd :: "double \<Rightarrow> double \<Rightarrow> double" where
  "fadd a b =
     (case a of
        Finite x \<Rightarrow> (case b of Finite y \<Rightarrow> round64 (x + y) | _ \<Rightarrow> b)
      | PosInf \<Rightarrow> (case b of NegInf \<Rightarrow> NaN | NaN \<Rightarrow> NaN | _ \<Rightarrow> PosInf)
      | NegInf \<Rightarrow> (case b of PosInf \<Rightarrow> NaN | NaN \<Rightarrow> NaN | _ \<Rightarrow> NegInf)
      | NaN \<Rightarrow> NaN)"

definition fsub :: "double \<Rightarrow> double \<Rightarrow> double" where
  "fsub a b = fadd a (fneg b)"

definition fmul :: "double \<Rightarrow> double \<Rightarrow> double" where
  "fmul a b =
     (case a of
        Finite x \<Rightarrow>
          (case b of
             Finite y \<Rightarrow> round64 (x * y)
           | NaN \<Rightarrow> NaN
           | _ \<Rightarrow> (if x = 0 then NaN else if 0 < fsign a * fsign b then PosInf else NegInf))
      | NaN \<Rightarrow> NaN
      | _ \<Rightarrow>
          (if fsign b = 0 then NaN else if 0 < fsign a * fsign b then PosInf else NegInf))"

definition fdiv :: "double \<Rightarrow> double \<Rightarrow> exn + double" where
  \<comment> \<open>\<open>a / b\<close>: Python tests \<open>b == 0.0\<close> first, whatever \<open>a\<close> is\<close>
  "fdiv a b =
     (case b of
        Finite y \<Rightarrow>
          if y = 0 then Inl ZeroDivisionError
          else (case a of
                  Finite x \<Rightarrow> Inr (round64 (x / y))
                | PosInf \<Rightarrow> Inr (if 0 < y then PosInf else NegInf)
                | NegInf \<Rightarrow> Inr (if 0 < y then NegInf else PosInf)
                | NaN \<Rightarrow> Inr NaN)
      | NaN \<Rightarrow> Inr NaN
      | _ \<Rightarrow> (case a of Finite x \<Rightarrow> Inr (Finite 0) | _ \<Rightarrow> Inr NaN))"

definition flt :: "double \<Rightarrow> double \<Rightarrow> bool" where
  \<comment> \<open>\<open>a < b\<close>; every comparison with NaN is false\<close>
  "flt a b =
     (case a of
        Finite x \<Rightarrow> (case b of Finite y \<Rightarrow> x < y | PosInf \<Rightarrow> True | _ \<Rightarrow> False)
      | NegInf \<Rightarrow> (case b of Finite y \<Rightarrow> True | PosInf \<Rightarrow> True | _ \<Rightarrow> False)
      | _ \<Rightarrow> False)"

definition feq :: "double \<Rightarrow> double \<Rightarrow> bool" where
  \<comment> \<open>\<open>a == b\<close>\<close>
  "feq a b = (a \<noteq> NaN \<and> a = b)"

definition float_of_int :: "int \<Rightarrow> exn + double" where
  \<comment> \<open>\<open>float(n)\<close>, also the conversion of an \<open>int\<close> operand of a mixed operation:
      correctly rounded, OverflowError when the result would not be finite\<close>
  "float_of_int n =
     (case round64 (of_int n) of
        Finite x \<Rightarrow> Inr (Finite x)
      | _ \<Rightarrow> Inl OverflowError)"

definition float_truediv_int :: "double \<Rightarrow> int \<Rightarrow> exn + double" where
  \<comment> \<open>\<open>a / n\<close> with \<open>a\<close> a float and \<open>n\<close> an int\<close>
  "float_truediv_int a n = (case float_of_int n of Inl e \<Rightarrow> Inl e | Inr b \<Rightarrow> fdiv a b)"

definition float_sub_int :: "double \<Rightarrow> int \<Rightarrow> exn + double" where
  \<comment> \<open>\<open>a - n\<close> with \<open>a\<close> a float and \<open>n\<close> an int\<close>
  "float_sub_int a n = (case float_of_int n of Inl e \<Rightarrow> Inl e | Inr b \<Rightarrow> Inr (fsub a b))"

definition int_truediv_float :: "int \<Rightarrow> double \<Rightarrow> exn + double" where
  \<comment> \<open>\<open>n / b\<close> with \<open>n\<close> an int and \<open>b\<close> a float: \<open>n\<close> is converted, then divided\<close>
  "int_truediv_float n b = (case float_of_int n of Inl e \<Rightarrow> Inl e | Inr a \<Rightarrow> fdiv a b)"

definition math_pi :: double where
  \<comment> \<open>\<open>math.pi\<close>, the float nearest to pi: \<open>884279719003555 / 2^48\<close>\<close>
  "math_pi = Finite (884279719003555 / 281474976710656)"

section \<open>The arm joint driver (arm.py)\<close>

text \<open>
  \<open>self.params\<close> is read at four keys. The three transmission parameters are floats;
  the flag is compared with \<open>1\<close> and kept as the value it is.
\<close>

datatype pyval =
    PyNone
  | PyBool bool
  | PyInt int
  | PyFloat double
  | PyStr string
  | PyObject "(string \<times> pyval) list"

record ArmParams =
  chain_pitch :: double
  chain_sprocket_teeth :: double
  gr_spur :: double
  safe_set_velocit :: pyval

definition arm_coefficient :: "ArmParams \<Rightarrow> exn + double" where
  \<comment> \<open>\<open>chain_pitch * chain_sprocket_teeth / gr_spur / (math.pi * 2)\<close>, left to right\<close>
  "arm_coefficient p =
     (case fdiv (fmul (chain_pitch p) (chain_sprocket_teeth p)) (gr_spur p) of
        Inl e \<Rightarrow> Inl e
      | Inr q \<Rightarrow> fdiv q (fmul math_pi (Finite 2)))"

definition motor_rad_to_translate_m :: "ArmParams \<Rightarrow> double \<Rightarrow> exn + double" where
  "motor_rad_to_translate_m p ang =
     (case arm_coefficient p of Inl e \<Rightarrow> Inl e | Inr c \<Rightarrow> Inr (fmul c ang))"

definition translate_m_to_motor_rad :: "ArmParams \<Rightarrow> double \<Rightarrow> exn + double" where
  "translate_m_to_motor_rad p x =
     (case arm_coefficient p of Inl e \<Rightarrow> Inl e | Inr c \<Rightarrow> fdiv x c)"

definition arm_round_trip :: "ArmParams \<Rightarrow> double \<Rightarrow> exn + double" where
  \<comment> \<open>\<open>motor_rad_to_translate_m(translate_m_to_motor_rad(x))\<close>\<close>
  "arm_round_trip p x =
     (case translate_m_to_motor_rad p x of
        Inl e \<Rightarrow> Inl e
      | Inr ang \<Rightarrow> motor_rad_to_translate_m p ang)"

subsection \<open>Calls through the class: \<open>PrismaticJoint.method(args)\<close>\<close>

text \<open>
  \<open>Arm\<close> reaches its base class by naming the class: \<open>PrismaticJoint.home(self, ...)\<close>,
  \<open>PrismaticJoint.set_velocity(v_m, ...)\<close>. Such a call is a plain function call: Python
  binds the arguments to the function's parameter list in order, \<open>self\<close> being the first
  parameter like any other. A parameter list is a list of names with optional defaults.
  The base class is not among the sources, so a base method is a parameter of the model:
  its parameter list and what it returns for the bound arguments.
\<close>

type_synonym signature = "(string \<times> pyval option) list"

fun bind_args ::
  "signature \<Rightarrow> pyval list \<Rightarrow> (string \<times> pyval) list \<Rightarrow> exn + (string \<times> pyval) list" where
  "bind_args [] [] kw = (if kw = [] then Inr [] else Inl TypeError)"
| "bind_args [] (a # as) kw = Inl TypeError"
| "bind_args ((p, d) # ps) (a # as) kw =
     (if p \<in> fst ` set kw then Inl TypeError
      else case bind_args ps as kw of Inl e \<Rightarrow> Inl e | Inr env \<Rightarrow> Inr ((p, a) # env))"
| "bind_args ((p, d) # ps) [] kw =
     (case map_of kw p of
        Some v \<Rightarrow>
          (case bind_args ps [] (filter (\<lambda>e. fst e \<noteq> p) kw) of
             Inl e \<Rightarrow> Inl e | Inr env \<Rightarrow> Inr ((p, v) # env))
      | None \<Rightarrow>
          (case d of
             None \<Rightarrow> Inl TypeError
           | Some v \<Rightarrow>
               (case bind_args ps [] kw of Inl e \<Rightarrow> Inl e | Inr env \<Rightarrow> Inr ((p, v) # env))))"

record 'r pyfunction =
  fparams :: signature
  fbody :: "(string \<times> pyval) list \<Rightarrow> 'r"

definition call_function ::
  "'r pyfunction \<Rightarrow> pyval list \<Rightarrow> (string \<times> pyval) list \<Rightarrow> exn + 'r" where
  "call_function f args kw =
     (case bind_args (fparams f) args kw of Inl e \<Rightarrow> Inl e | Inr env \<Rightarrow> Inr (fbody f env))"

definition py_eq_one :: "pyval \<Rightarrow> bool" where
  \<comment> \<open>\<open>v == 1\<close>\<close>
  "py_eq_one v =
     (case v of
        PyInt n \<Rightarrow> n = 1
      | PyBool b \<Rightarrow> b
      | PyFloat d \<Rightarrow> feq d (Finite 1)
      | _ \<Rightarrow> False)"

definition Arm_home ::
  "'r pyfunction \<Rightarrow> pyval \<Rightarrow> pyval \<Rightarrow> pyval \<Rightarrow> pyval \<Rightarrow> exn + 'r" where
  \<comment> \<open>\<open>PrismaticJoint.home(self, end_pos=end_pos, to_positive_stop=..., measuring=...)\<close>\<close>
  "Arm_home base_home self end_pos to_positive_stop measuring =
     call_function base_home [self]
       [(''end_pos'', end_pos), (''to_positive_stop'', to_positive_stop),
        (''measuring'', measuring)]"

definition Arm_set_velocity ::
  "ArmParams \<Rightarrow> 'r pyfunction \<Rightarrow> 'r pyfunction \<Rightarrow> pyval \<Rightarrow> pyval \<Rightarrow> pyval \<Rightarrow> pyval \<Rightarrow> pyval
     \<Rightarrow> pyval \<Rightarrow> pyval \<Rightarrow> pyval \<Rightarrow> pyval \<Rightarrow> exn + 'r" where
  \<comment> \<open>the receiver \<open>self\<close> is an argument of the model, as it is of the method; the two
      calls do not pass it on\<close>
  "Arm_set_velocity params base_set_safe_velocity base_set_velocity self v_m a_m stiffness
       contact_thresh_pos_N contact_thresh_neg_N req_calibration contact_thresh_pos
       contact_thresh_neg =
     (if py_eq_one (safe_set_velocit params)
      then call_function base_set_safe_velocity
             [v_m, a_m, stiffness, contact_thresh_pos_N, contact_thresh_neg_N, req_calibration,
              contact_thresh_pos, contact_thresh_neg] []
      else call_function base_set_velocity
             [v_m, a_m, stiffness, contact_thresh_pos_N, contact_thresh_neg_N, req_calibration,
              contact_thresh_pos, contact_thresh_neg] [])"

definition velocity_command_signature :: signature where
  \<comment> \<open>Modelled from the spec: the parameter list of the base class's two velocity commands,
      which are not among the sources. It is the list \<open>Arm.set_velocity\<close> overrides them
      with (section 4.1 of the spec), \<open>self\<close> first as for every method.\<close>
  "velocity_command_signature =
     [(''self'', None), (''v_m'', None), (''a_m'', Some PyNone), (''stiffness'', Some PyNone),
      (''contact_thresh_pos_N'', Some PyNone), (''contact_thresh_neg_N'', Some PyNone),
      (''req_calibration'', Some (PyBool True)), (''contact_thresh_pos'', Some PyNone),
      (''contact_thresh_neg'', Some PyNone)]"

definition received_arguments :: "((string \<times> pyval) list) pyfunction" where
  \<comment> \<open>a base method that returns the arguments it was called with\<close>
  "received_arguments = \<lparr>fparams = velocity_command_signature, fbody = (\<lambda>env. env)\<rparr>"

section \<open>The Xbox controller subsystem (xbox_controller.py)\<close>

subsection \<open>Strings: slices, \<open>lower()\<close>, \<open>int()\<close>\<close>

definition py_slice :: "nat \<Rightarrow> nat \<Rightarrow> string \<Rightarrow> string" where
  \<comment> \<open>\<open>s[i:j]\<close> for \<open>0 \<le> i \<le> j\<close>: out of range bounds are clipped, as Python does\<close>
  "py_slice i j s = take (j - i) (drop i s)"

definition lower_table :: "(char \<times> char) list" where
  "lower_table = zip ''ABCDEFGHIJKLMNOPQRSTUVWXYZ'' ''abcdefghijklmnopqrstuvwxyz''"

definition py_lower :: "string \<Rightarrow> string" where
  "py_lower s = map (\<lambda>c. case map_of lower_table c of Some l \<Rightarrow> l | None \<Rightarrow> c) s"

definition digit_table :: "(char \<times> int) list" where
  "digit_table = zip ''0123456789'' [0, 1, 2, 3, 4, 5, 6, 7, 8, 9]"

definition is_space :: "char \<Rightarrow> bool" where
  "is_space c = (c \<in> set [CHR '' '', CHR 0x09, CHR 0x0A, CHR 0x0B, CHR 0x0C, CHR 0x0D])"

fun parse_digits :: "int \<Rightarrow> bool \<Rightarrow> string \<Rightarrow> int option" where
  \<comment> \<open>decimal digits, single underscores allowed between two digits; the flag says that
      the previous character was a digit\<close>
  "parse_digits acc after_digit [] = (if after_digit then Some acc else None)"
| "parse_digits acc after_digit (c # cs) =
     (case map_of digit_table c of
        Some d \<Rightarrow> parse_digits (10 * acc + d) True cs
      | None \<Rightarrow> if c = CHR ''_'' \<and> after_digit then parse_digits acc False cs else None)"

definition py_int :: "string \<Rightarrow> exn + int" where
  \<comment> \<open>\<open>int(s)\<close> of a string or bytes value: surrounding whitespace, an optional sign,
      decimal digits; ValueError otherwise\<close>
  "py_int s =
     (let t = rev (dropWhile is_space (rev (dropWhile is_space s)));
          r = (case t of
                 [] \<Rightarrow> None
               | c # cs \<Rightarrow>
                   if c = CHR ''-'' then map_option uminus (parse_digits 0 False cs)
                   else if c = CHR ''+'' then parse_digits 0 False cs
                   else parse_digits 0 False t)
      in case r of None \<Rightarrow> Inl ValueError | Some n \<Rightarrow> Inr n)"

definition py_int_of :: "pyval \<Rightarrow> exn + int" where
  \<comment> \<open>\<open>int(v)\<close> of any value: a float is truncated towards zero\<close>
  "py_int_of v =
     (case v of
        PyInt n \<Rightarrow> Inr n
      | PyBool b \<Rightarrow> Inr (if b then 1 else 0)
      | PyFloat d \<Rightarrow>
          (case d of
             Finite x \<Rightarrow> Inr (if 0 \<le> x then \<lfloor>x\<rfloor> else \<lceil>x\<rceil>)
           | NaN \<Rightarrow> Inl ValueError
           | _ \<Rightarrow> Inl OverflowError)
      | PyStr s \<Rightarrow> py_int s
      | _ \<Rightarrow> Inl TypeError)"

subsection \<open>Joystick: the client of the driver process\<close>

text \<open>
  The object's own fields are the record; the driver process and its pipe are the
  environment. What one call observes of the environment is an argument of the model:
  \<^item> for the constructor, whether \<open>Popen\<close> raises, and the polls of the pipe made before
    the two second deadline, each either not readable (\<open>None\<close>) or the line \<open>readline()\<close>
    returned;
  \<^item> for one \<open>refresh()\<close>, the two readings of \<open>time.time()\<close> and the lines
    \<open>readline()\<close> returns while \<open>select\<close> reports the pipe readable (a zero-length read
    is the empty line; no line at all means the pipe was not readable).
\<close>

record Joystick =
  connectStatus :: bool
  reading :: string
  refreshTime :: double
  refreshDelay :: double

definition not_found_message :: string where
  "not_found_message = ''No Xbox controller/receiver found''"

definition not_detected_message :: string where
  "not_detected_message = ''Unable to detect Xbox controller/receiver - Run python as sudo''"

definition disconnected_message :: string where
  "disconnected_message = ''Xbox controller disconnected from USB''"

fun wait_for_controller ::
  "string option list \<Rightarrow> bool \<Rightarrow> Joystick \<Rightarrow> exn + bool \<times> Joystick" where
  \<comment> \<open>the loop \<open>while waitTime > time.time() and not found\<close>, one poll per iteration\<close>
  "wait_for_controller [] found j = Inr (found, j)"
| "wait_for_controller (poll # polls) found j =
     (if found then Inr (found, j)
      else case poll of
        None \<Rightarrow> wait_for_controller polls found j
      | Some response \<Rightarrow>
          if py_slice 0 7 response = ''No Xbox'' then Inl (IOError not_found_message)
          else
            let found1 = (found \<or> py_lower (py_slice 0 12 response) = ''press ctrl-c'')
            in if length response = 140
               then wait_for_controller polls True (j\<lparr>connectStatus := True, reading := response\<rparr>)
               else wait_for_controller polls found1 j)"

definition Joystick_init :: "exn option \<Rightarrow> string option list \<Rightarrow> int \<Rightarrow> exn + Joystick" where
  "Joystick_init popen_raises polls refreshRate =
     (case popen_raises of
        Some e \<Rightarrow> Inl e
      | None \<Rightarrow>
          (case float_truediv_int (Finite 1) refreshRate of
             Inl e \<Rightarrow> Inl e
           | Inr delay \<Rightarrow>
               (case wait_for_controller polls False
                       \<lparr>connectStatus = False, reading = replicate 140 CHR ''0'',
                        refreshTime = Finite 0, refreshDelay = delay\<rparr> of
                  Inl e \<Rightarrow> Inl e
                | Inr (found, j) \<Rightarrow>
                    if found then Inr j else Inl (IOError not_detected_message))))"

record refresh_obs =
  t_check :: double
  t_set :: double
  responses :: "string list"

fun drain :: "string list \<Rightarrow> string \<Rightarrow> exn + string" where
  \<comment> \<open>the loop \<open>while readable\<close>: reads every line, keeps the last\<close>
  "drain [] response = Inr response"
| "drain (r # rs) response =
     (if length r = 0 then Inl (IOError disconnected_message) else drain rs r)"

definition Joystick_refresh :: "refresh_obs \<Rightarrow> Joystick \<Rightarrow> exn option \<times> Joystick" where
  \<comment> \<open>the exception raised, if any, and the object as the call leaves it\<close>
  "Joystick_refresh obs j =
     (if flt (refreshTime j) (t_check obs)
      then
        let j1 = j\<lparr>refreshTime := fadd (t_set obs) (refreshDelay j)\<rparr>
        in if responses obs = [] then (None, j1)
           else case drain (responses obs) [] of
                  Inl e \<Rightarrow> (Some e, j1)
                | Inr response \<Rightarrow>
                    if length response = 140
                    then (None, j1\<lparr>connectStatus := True, reading := response\<rparr>)
                    else (None, j1\<lparr>connectStatus := False\<rparr>)
      else (None, j))"

definition Joystick_connected :: "refresh_obs \<Rightarrow> Joystick \<Rightarrow> (exn + bool) \<times> Joystick" where
  "Joystick_connected obs j =
     (case Joystick_refresh obs j of
        (Some e, j') \<Rightarrow> (Inl e, j')
      | (None, j') \<Rightarrow> (Inr (connectStatus j'), j'))"

definition axisScale :: "int \<Rightarrow> int \<Rightarrow> exn + double" where
  "axisScale raw deadzone =
     (if \<bar>raw\<bar> < deadzone then Inr (Finite 0)
      else if raw < 0
      then (case float_sub_int (Finite 32768) deadzone of
              Inl e \<Rightarrow> Inl e
            | Inr den \<Rightarrow> int_truediv_float (raw + deadzone) den)
      else (case float_sub_int (Finite 32767) deadzone of
              Inl e \<Rightarrow> Inl e
            | Inr den \<Rightarrow> int_truediv_float (raw - deadzone) den))"

text \<open>
  Every accessor is \<open>self.refresh()\<close> followed by a decoding of \<open>self.reading\<close> at fixed
  offsets. The decodings are functions of the reading alone.
\<close>

definition axis_field :: "nat \<Rightarrow> nat \<Rightarrow> int \<Rightarrow> string \<Rightarrow> exn + pyval" where
  "axis_field i j deadzone r =
     (case py_int (py_slice i j r) of
        Inl e \<Rightarrow> Inl e
      | Inr raw \<Rightarrow> (case axisScale raw deadzone of Inl e \<Rightarrow> Inl e | Inr v \<Rightarrow> Inr (PyFloat v)))"

definition button_field :: "nat \<Rightarrow> nat \<Rightarrow> string \<Rightarrow> exn + pyval" where
  "button_field i j r = (case py_int (py_slice i j r) of Inl e \<Rightarrow> Inl e | Inr n \<Rightarrow> Inr (PyInt n))"

definition trigger_field :: "nat \<Rightarrow> nat \<Rightarrow> string \<Rightarrow> exn + pyval" where
  "trigger_field i j r =
     (case py_int (py_slice i j r) of
        Inl e \<Rightarrow> Inl e
      | Inr n \<Rightarrow>
          (case int_truediv_float n (Finite 255) of Inl e \<Rightarrow> Inl e | Inr v \<Rightarrow> Inr (PyFloat v)))"

definition accessor ::
  "(string \<Rightarrow> exn + pyval) \<Rightarrow> refresh_obs \<Rightarrow> Joystick \<Rightarrow> (exn + pyval) \<times> Joystick" where
  "accessor decode obs j =
     (case Joystick_refresh obs j of
        (Some e, j') \<Rightarrow> (Inl e, j')
      | (None, j') \<Rightarrow> (decode (reading j'), j'))"

definition Joystick_leftX where "Joystick_leftX deadzone = accessor (axis_field 3 9 deadzone)"
definition Joystick_leftY where "Joystick_leftY deadzone = accessor (axis_field 13 19 deadzone)"
definition Joystick_rightX where "Joystick_rightX deadzone = accessor (axis_field 24 30 deadzone)"
definition Joystick_rightY where "Joystick_rightY deadzone = accessor (axis_field 34 40 deadzone)"
definition Joystick_dpadUp where "Joystick_dpadUp = accessor (button_field 45 46)"
definition Joystick_dpadDown where "Joystick_dpadDown = accessor (button_field 50 51)"
definition Joystick_dpadLeft where "Joystick_dpadLeft = accessor (button_field 55 56)"
definition Joystick_dpadRight where "Joystick_dpadRight = accessor (button_field 60 61)"
definition Joystick_Back where "Joystick_Back = accessor (button_field 68 69)"
definition Joystick_Guide where "Joystick_Guide = accessor (button_field 76 77)"
definition Joystick_Start where "Joystick_Start = accessor (button_field 84 85)"
definition Joystick_leftThumbstick where "Joystick_leftThumbstick = accessor (button_field 90 91)"
definition Joystick_rightThumbstick where "Joystick_rightThumbstick = accessor (button_field 95 96)"
definition Joystick_A where "Joystick_A = accessor (button_field 100 101)"
definition Joystick_B where "Joystick_B = accessor (button_field 104 105)"
definition Joystick_X where "Joystick_X = accessor (button_field 108 109)"
definition Joystick_Y where "Joystick_Y = accessor (button_field 112 113)"
definition Joystick_leftBumper where "Joystick_leftBumper = accessor (button_field 118 119)"
definition Joystick_rightBumper where "Joystick_rightBumper = accessor (button_field 123 124)"
definition Joystick_leftTrigger where "Joystick_leftTrigger = accessor (trigger_field 129 132)"
definition Joystick_rightTrigger where "Joystick_rightTrigger = accessor (trigger_field 136 139)"


definition decoders :: "(string \<Rightarrow> exn + pyval) list" where
  \<comment> \<open>the decodings of the accessors with their default deadzone, in the same order\<close>
  "decoders =
     [axis_field 3 9 4000, axis_field 13 19 4000, axis_field 24 30 4000, axis_field 34 40 4000,
      button_field 45 46, button_field 50 51, button_field 55 56, button_field 60 61,
      button_field 68 69, button_field 76 77, button_field 84 85, button_field 90 91,
      button_field 95 96, button_field 100 101, button_field 104 105, button_field 108 109,
      button_field 112 113, button_field 118 119, button_field 123 124,
      trigger_field 129 132, trigger_field 136 139]"


subsection \<open>Stick, Button, Trigger\<close>

text \<open>
  The fields \<open>x\<close>, \<open>y\<close>, \<open>pressed\<close> and \<open>pulled\<close> are assigned floats, booleans and ints
  at different places, so they hold a \<open>pyval\<close>. \<open>float(pow(2, 15))\<close> and
  \<open>float(pow(2, num_bits) - 1)\<close> are exactly representable and written as their values.
  The raw values handed to \<open>update_x\<close>, \<open>update_y\<close> and \<open>Trigger.update\<close> go through
  \<open>int()\<close>, so they are any value; \<open>Button.update\<close> compares its state with 0 and 1.
\<close>

record Stick =
  Stick_x :: pyval
  Stick_y :: pyval
  Stick_norm :: double

definition Stick_init :: Stick where
  "Stick_init = \<lparr>Stick_x = PyFloat (Finite 0), Stick_y = PyFloat (Finite 0), Stick_norm = Finite (2 ^ 15)\<rparr>"

definition Stick_update_x :: "pyval \<Rightarrow> Stick \<Rightarrow> exn + Stick" where
  "Stick_update_x abs_x s =
     (case py_int_of abs_x of
        Inl e \<Rightarrow> Inl e
      | Inr n \<Rightarrow>
          (case int_truediv_float n (Stick_norm s) of
             Inl e \<Rightarrow> Inl e | Inr v \<Rightarrow> Inr (s\<lparr>Stick_x := PyFloat v\<rparr>)))"

definition Stick_update_y :: "pyval \<Rightarrow> Stick \<Rightarrow> exn + Stick" where
  "Stick_update_y abs_y s =
     (case py_int_of abs_y of
        Inl e \<Rightarrow> Inl e
      | Inr n \<Rightarrow>
          (case int_truediv_float (- n) (Stick_norm s) of
             Inl e \<Rightarrow> Inl e | Inr v \<Rightarrow> Inr (s\<lparr>Stick_y := PyFloat v\<rparr>)))"

record Button =
  Button_pressed :: pyval

definition Button_init :: Button where
  "Button_init = \<lparr>Button_pressed = PyBool False\<rparr>"

definition Button_update :: "int \<Rightarrow> Button \<Rightarrow> Button" where
  "Button_update state b =
     (if state = 0 then b\<lparr>Button_pressed := PyBool False\<rparr>
      else if state = 1 then b\<lparr>Button_pressed := PyBool True\<rparr>
      else b)"

record Trigger =
  Trigger_norm :: double
  Trigger_pulled :: pyval

definition Trigger_init :: "bool \<Rightarrow> Trigger" where
  "Trigger_init xbox_one =
     (let num_bits = (if xbox_one then 10 else 8 :: nat)
      in \<lparr>Trigger_norm = Finite (2 ^ num_bits - 1), Trigger_pulled = PyFloat (Finite 0)\<rparr>)"

definition Trigger_update :: "pyval \<Rightarrow> Trigger \<Rightarrow> exn + Trigger" where
  "Trigger_update state t =
     (case py_int_of state of
        Inl e \<Rightarrow> Inl e
      | Inr n \<Rightarrow>
          (case int_truediv_float n (Trigger_norm t) of
             Inl e \<Rightarrow> Inl e
           | Inr v \<Rightarrow>
               Inr (t\<lparr>Trigger_pulled := PyFloat (if flt (Finite 1) v then Finite 1 else v)\<rparr>)))"

subsection \<open>XboxController\<close>

record XboxController =
  left_stick :: Stick
  right_stick :: Stick
  left_stick_button :: Button
  right_stick_button :: Button
  middle_led_ring_button :: Button
  bottom_button :: Button
  top_button :: Button
  left_button :: Button
  right_button :: Button
  right_shoulder_button :: Button
  left_shoulder_button :: Button
  select_button :: Button
  start_button :: Button
  left_trigger :: Trigger
  right_trigger :: Trigger
  left_pad :: Button
  right_pad :: Button
  top_pad :: Button
  bottom_pad :: Button
  joy :: "Joystick option"

definition XboxController_init :: XboxController where
  "XboxController_init =
     \<lparr>left_stick = Stick_init, right_stick = Stick_init, left_stick_button = Button_init,
      right_stick_button = Button_init, middle_led_ring_button = Button_init,
      bottom_button = Button_init, top_button = Button_init, left_button = Button_init,
      right_button = Button_init, right_shoulder_button = Button_init,
      left_shoulder_button = Button_init, select_button = Button_init,
      start_button = Button_init, left_trigger = Trigger_init False,
      right_trigger = Trigger_init False, left_pad = Button_init, right_pad = Button_init,
      top_pad = Button_init, bottom_pad = Button_init, joy = None\<rparr>"

text \<open>
  \<open>start()\<close> names the constructor as \<open>xbox.Joystick()\<close>. A name that a function does not
  bind locally is looked up among the module's globals: the names the file imports,
  defines at top level or assigns there. \<open>Joystick\<close> is one of them; \<open>xbox\<close> is not (the
  file has no \<open>import xbox\<close>; the word occurs in its docstrings and comments only).
\<close>

definition module_globals :: "string list" where
  "module_globals =
     [''print_function'', ''threading'', ''time'', ''subprocess'', ''psutil'', ''select'',
      ''Joystick'', ''Stick'', ''Button'', ''Trigger'', ''XboxController'', ''main'']"

definition load_global :: "string \<Rightarrow> exn + string" where
  "load_global name = (if name \<in> set module_globals then Inr name else Inl (NameError name))"

text \<open>
  What \<open>start()\<close> observes: the process names \<open>psutil\<close> lists (or the exception it
  raises), whether starting \<open>killall\<close> raises, and what the constructor of the client
  would observe.
\<close>

record start_obs =
  process_names :: "exn + string list"
  killall_raises :: "exn option"
  driver_popen_raises :: "exn option"
  driver_polls :: "string option list"

fun is_IOError :: "exn \<Rightarrow> bool" where
  "is_IOError (IOError m) = True"
| "is_IOError _ = False"

definition start_body :: "start_obs \<Rightarrow> exn + Joystick" where
  \<comment> \<open>the body of the \<open>try\<close>: the value assigned to \<open>self.joy\<close>, or the exception\<close>
  "start_body obs =
     (case process_names obs of
        Inl e \<Rightarrow> Inl e
      | Inr names \<Rightarrow>
          (case (if ''xboxdrv'' \<in> set names then killall_raises obs else None) of
             Some e \<Rightarrow> Inl e
           | None \<Rightarrow>
               (case load_global ''xbox'' of
                  Inl e \<Rightarrow> Inl e
                | Inr m \<Rightarrow> Joystick_init (driver_popen_raises obs) (driver_polls obs) 30)))"

definition XboxController_start :: "start_obs \<Rightarrow> XboxController \<Rightarrow> (exn + bool) \<times> XboxController" where
  "XboxController_start obs c =
     (case start_body obs of
        Inr j \<Rightarrow> (Inr True, c\<lparr>joy := Some j\<rparr>)
      | Inl e \<Rightarrow> if is_IOError e then (Inr True, c\<lparr>joy := None\<rparr>) else (Inl e, c))"

definition XboxController_stop :: "XboxController \<Rightarrow> XboxController" where
  "XboxController_stop c = c\<lparr>joy := None\<rparr>"

type_synonym assignment =
  "(refresh_obs \<Rightarrow> Joystick \<Rightarrow> (exn + pyval) \<times> Joystick) \<times> (pyval \<Rightarrow> XboxController \<Rightarrow> XboxController)"

definition update_assignments :: "assignment list" where
  \<comment> \<open>the statements \<open>self.<primitive>.<field> = self.joy.<accessor>()\<close> of \<open>update()\<close>,
      in the order of the source\<close>
  "update_assignments =
     [(Joystick_leftX 0, \<lambda>v c. c\<lparr>left_stick := (left_stick c)\<lparr>Stick_x := v\<rparr>\<rparr>),
      (Joystick_leftY 0, \<lambda>v c. c\<lparr>left_stick := (left_stick c)\<lparr>Stick_y := v\<rparr>\<rparr>),
      (Joystick_rightX 0, \<lambda>v c. c\<lparr>right_stick := (right_stick c)\<lparr>Stick_x := v\<rparr>\<rparr>),
      (Joystick_rightY 0, \<lambda>v c. c\<lparr>right_stick := (right_stick c)\<lparr>Stick_y := v\<rparr>\<rparr>),
      (Joystick_dpadLeft, \<lambda>v c. c\<lparr>left_pad := (left_pad c)\<lparr>Button_pressed := v\<rparr>\<rparr>),
      (Joystick_dpadRight, \<lambda>v c. c\<lparr>right_pad := (right_pad c)\<lparr>Button_pressed := v\<rparr>\<rparr>),
      (Joystick_dpadUp, \<lambda>v c. c\<lparr>top_pad := (top_pad c)\<lparr>Button_pressed := v\<rparr>\<rparr>),
      (Joystick_dpadDown, \<lambda>v c. c\<lparr>bottom_pad := (bottom_pad c)\<lparr>Button_pressed := v\<rparr>\<rparr>),
      (Joystick_A, \<lambda>v c. c\<lparr>bottom_button := (bottom_button c)\<lparr>Button_pressed := v\<rparr>\<rparr>),
      (Joystick_Y, \<lambda>v c. c\<lparr>top_button := (top_button c)\<lparr>Button_pressed := v\<rparr>\<rparr>),
      (Joystick_X, \<lambda>v c. c\<lparr>left_button := (left_button c)\<lparr>Button_pressed := v\<rparr>\<rparr>),
      (Joystick_B, \<lambda>v c. c\<lparr>right_button := (right_button c)\<lparr>Button_pressed := v\<rparr>\<rparr>),
      (Joystick_leftThumbstick, \<lambda>v c. c\<lparr>left_stick_button := (left_stick_button c)\<lparr>Button_pressed := v\<rparr>\<rparr>),
      (Joystick_rightThumbstick, \<lambda>v c. c\<lparr>right_stick_button := (right_stick_button c)\<lparr>Button_pressed := v\<rparr>\<rparr>),
      (Joystick_leftBumper, \<lambda>v c. c\<lparr>left_shoulder_button := (left_shoulder_button c)\<lparr>Button_pressed := v\<rparr>\<rparr>),
      (Joystick_rightBumper, \<lambda>v c. c\<lparr>right_shoulder_button := (right_shoulder_button c)\<lparr>Button_pressed := v\<rparr>\<rparr>),
      (Joystick_leftTrigger, \<lambda>v c. c\<lparr>left_trigger := (left_trigger c)\<lparr>Trigger_pulled := v\<rparr>\<rparr>),
      (Joystick_rightTrigger, \<lambda>v c. c\<lparr>right_trigger := (right_trigger c)\<lparr>Trigger_pulled := v\<rparr>\<rparr>),
      (Joystick_Start, \<lambda>v c. c\<lparr>start_button := (start_button c)\<lparr>Button_pressed := v\<rparr>\<rparr>),
      (Joystick_Back, \<lambda>v c. c\<lparr>select_button := (select_button c)\<lparr>Button_pressed := v\<rparr>\<rparr>),
      (Joystick_Guide, \<lambda>v c. c\<lparr>middle_led_ring_button := (middle_led_ring_button c)\<lparr>Button_pressed := v\<rparr>\<rparr>)]"

fun run_assignments ::
  "assignment list \<Rightarrow> (nat \<Rightarrow> refresh_obs) \<Rightarrow> nat \<Rightarrow> XboxController \<Rightarrow> exn option \<times> XboxController" where
  \<comment> \<open>the \<open>k\<close>-th accessor call observes \<open>world k\<close>; the first exception ends the block\<close>
  "run_assignments [] world k c = (None, c)"
| "run_assignments ((acc, store) # rest) world k c =
     (case joy c of
        None \<Rightarrow> (None, c)
      | Some j \<Rightarrow>
          (case acc (world k) j of
             (Inl e, j') \<Rightarrow> (Some e, c\<lparr>joy := Some j'\<rparr>)
           | (Inr v, j') \<Rightarrow> run_assignments rest world (Suc k) (store v (c\<lparr>joy := Some j'\<rparr>))))"

definition XboxController_update ::
  "(nat \<Rightarrow> refresh_obs) \<Rightarrow> XboxController \<Rightarrow> exn option \<times> XboxController" where
  "XboxController_update world c =
     (case joy c of
        None \<Rightarrow> (None, c)
      | Some j \<Rightarrow>
          (case run_assignments update_assignments world 0 c of
             (None, c') \<Rightarrow> (None, c')
           | (Some e, c') \<Rightarrow>
               if is_IOError e then (None, c'\<lparr>joy := None\<rparr>) else (Some e, c')))"

definition XboxController_snapshot :: "XboxController \<Rightarrow> (string \<times> pyval) list" where
  \<comment> \<open>the dict display of \<open>get_state()\<close>, its entries in the order they are written\<close>
  "XboxController_snapshot c =
     [(''middle_led_ring_button_pressed'', Button_pressed (middle_led_ring_button c)),
      (''left_stick_x'', Stick_x (left_stick c)),
      (''left_stick_y'', Stick_y (left_stick c)),
      (''right_stick_x'', Stick_x (right_stick c)),
      (''right_stick_y'', Stick_y (right_stick c)),
      (''left_stick_button_pressed'', Button_pressed (left_stick_button c)),
      (''right_stick_button_pressed'', Button_pressed (right_stick_button c)),
      (''bottom_button_pressed'', Button_pressed (bottom_button c)),
      (''top_button_pressed'', Button_pressed (top_button c)),
      (''left_button_pressed'', Button_pressed (left_button c)),
      (''right_button_pressed'', Button_pressed (right_button c)),
      (''left_shoulder_button_pressed'', Button_pressed (left_shoulder_button c)),
      (''right_shoulder_button_pressed'', Button_pressed (right_shoulder_button c)),
      (''select_button_pressed'', Button_pressed (select_button c)),
      (''start_button_pressed'', Button_pressed (start_button c)),
      (''left_trigger_pulled'', Trigger_pulled (left_trigger c)),
      (''right_trigger_pulled'', Trigger_pulled (right_trigger c)),
      (''bottom_pad_pressed'', Button_pressed (bottom_pad c)),
      (''top_pad_pressed'', Button_pressed (top_pad c)),
      (''left_pad_pressed'', Button_pressed (left_pad c)),
      (''right_pad_pressed'', Button_pressed (right_pad c))]"

definition XboxController_get_state ::
  "(nat \<Rightarrow> refresh_obs) \<Rightarrow> XboxController \<Rightarrow> (exn + (string \<times> pyval) list) \<times> XboxController" where
  "XboxController_get_state world c =
     (case XboxController_update world c of
        (Some e, c') \<Rightarrow> (Inl e, c')
      | (None, c') \<Rightarrow> (Inr (XboxController_snapshot c'), c'))"

definition idle_obs :: refresh_obs where
  \<comment> \<open>a refresh that finds the clock at 0 and the pipe not readable\<close>
  "idle_obs = \<lparr>t_check = Finite 0, t_set = Finite 0, responses = []\<rparr>"

definition idle_world :: "nat \<Rightarrow> refresh_obs" where
  "idle_world k = idle_obs"

section \<open>The generic gamepad poller (gamepad_controller.py)\<close>

text \<open>
  The class assigns and reads attributes that its constructor never creates, so its
  instance is modelled as Python has it: a dictionary of attributes. Reading an attribute
  that is not there raises AttributeError; so does assigning an attribute of a value that
  is not an object. The attributes \<open>threading.Thread.__init__\<close> creates are a parameter.
\<close>

definition getattr :: "pyval \<Rightarrow> string \<Rightarrow> exn + pyval" where
  "getattr v a =
     (case v of
        PyObject attrs \<Rightarrow>
          (case map_of attrs a of None \<Rightarrow> Inl (AttributeError a) | Some x \<Rightarrow> Inr x)
      | _ \<Rightarrow> Inl (AttributeError a))"

fun put :: "string \<Rightarrow> pyval \<Rightarrow> (string \<times> pyval) list \<Rightarrow> (string \<times> pyval) list" where
  "put a x [] = [(a, x)]"
| "put a x ((b, y) # attrs) = (if a = b then (a, x) # attrs else (b, y) # put a x attrs)"

definition setattr :: "pyval \<Rightarrow> string \<Rightarrow> pyval \<Rightarrow> exn + pyval" where
  "setattr v a x =
     (case v of
        PyObject attrs \<Rightarrow> Inr (PyObject (put a x attrs))
      | _ \<Rightarrow> Inl (AttributeError a))"

definition set_nested :: "string \<Rightarrow> string \<Rightarrow> pyval \<Rightarrow> pyval \<Rightarrow> exn + pyval" where
  \<comment> \<open>\<open>self.a.b = x\<close>\<close>
  "set_nested a b x self =
     (case getattr self a of
        Inl e \<Rightarrow> Inl e
      | Inr sub \<Rightarrow>
          (case setattr sub b x of Inl e \<Rightarrow> Inl e | Inr sub' \<Rightarrow> setattr self a sub'))"

definition get_nested :: "string \<Rightarrow> string \<Rightarrow> pyval \<Rightarrow> exn + pyval" where
  \<comment> \<open>\<open>self.a.b\<close>\<close>
  "get_nested a b self = (case getattr self a of Inl e \<Rightarrow> Inl e | Inr sub \<Rightarrow> getattr sub b)"

definition zero_assignments :: "(string \<times> string \<times> pyval) list" where
  \<comment> \<open>the assignments of \<open>set_zero_state()\<close>, in the order of the source\<close>
  "zero_assignments =
     [(''middle_led_ring_button'', ''pressed'', PyBool False),
      (''left_stick'', ''x'', PyInt 0),
      (''left_stick'', ''y'', PyInt 0),
      (''right_stick'', ''x'', PyInt 0),
      (''right_stick'', ''y'', PyInt 0),
      (''left_stick_button'', ''pressed'', PyBool False),
      (''right_stick_button'', ''pressed'', PyBool False),
      (''bottom_button'', ''pressed'', PyBool False),
      (''top_button'', ''pressed'', PyBool False),
      (''left_button'', ''pressed'', PyBool False),
      (''right_button'', ''pressed'', PyBool False),
      (''left_shoulder_button'', ''pressed'', PyBool False),
      (''right_shoulder_button'', ''pressed'', PyBool False),
      (''select_button'', ''pressed'', PyBool False),
      (''start_button'', ''pressed'', PyBool False),
      (''bottom_pad'', ''pressed'', PyBool False),
      (''top_pad'', ''pressed'', PyBool False),
      (''left_pad'', ''pressed'', PyBool False),
      (''right_pad'', ''pressed'', PyBool False),
      (''left_trigger'', ''pulled'', PyInt 0),
      (''right_trigger'', ''pulled'', PyInt 0)]"

fun assign_all :: "(string \<times> string \<times> pyval) list \<Rightarrow> pyval \<Rightarrow> exn + pyval" where
  "assign_all [] self = Inr self"
| "assign_all ((a, b, x) # rest) self =
     (case set_nested a b x self of Inl e \<Rightarrow> Inl e | Inr self' \<Rightarrow> assign_all rest self')"

definition GamePadController_set_zero_state :: "pyval \<Rightarrow> exn + pyval" where
  "GamePadController_set_zero_state self =
     (case getattr self ''lock'' of
        Inl e \<Rightarrow> Inl e
      | Inr l \<Rightarrow> assign_all zero_assignments self)"

definition state_entries :: "(string \<times> string \<times> string) list" where
  \<comment> \<open>the dict display of \<open>get_state()\<close>: key, attribute of \<open>self\<close>, field of that attribute\<close>
  "state_entries =
     [(''middle_led_ring_button_pressed'', ''middle_led_ring_button'', ''pressed''),
      (''left_stick_x'', ''left_stick'', ''x''),
      (''left_stick_y'', ''left_stick'', ''y''),
      (''right_stick_x'', ''right_stick'', ''x''),
      (''right_stick_y'', ''right_stick'', ''y''),
      (''left_stick_button_pressed'', ''left_stick_button'', ''pressed''),
      (''right_stick_button_pressed'', ''right_stick_button'', ''pressed''),
      (''bottom_button_pressed'', ''bottom_button'', ''pressed''),
      (''top_button_pressed'', ''top_button'', ''pressed''),
      (''left_button_pressed'', ''left_button'', ''pressed''),
      (''right_button_pressed'', ''right_button'', ''pressed''),
      (''left_shoulder_button_pressed'', ''left_shoulder_button'', ''pressed''),
      (''right_shoulder_button_pressed'', ''right_shoulder_button'', ''pressed''),
      (''select_button_pressed'', ''select_button'', ''pressed''),
      (''start_button_pressed'', ''start_button'', ''pressed''),
      (''left_trigger_pulled'', ''left_trigger'', ''pulled''),
      (''right_trigger_pulled'', ''right_trigger'', ''pulled''),
      (''bottom_pad_pressed'', ''bottom_pad'', ''pressed''),
      (''top_pad_pressed'', ''top_pad'', ''pressed''),
      (''left_pad_pressed'', ''left_pad'', ''pressed''),
      (''right_pad_pressed'', ''right_pad'', ''pressed'')]"

fun read_all :: "(string \<times> string \<times> string) list \<Rightarrow> pyval \<Rightarrow> exn + (string \<times> pyval) list" where
  "read_all [] self = Inr []"
| "read_all ((k, a, b) # rest) self =
     (case get_nested a b self of
        Inl e \<Rightarrow> Inl e
      | Inr v \<Rightarrow> (case read_all rest self of Inl e \<Rightarrow> Inl e | Inr kvs \<Rightarrow> Inr ((k, v) # kvs)))"

definition GamePadController_get_state :: "pyval \<Rightarrow> exn + (string \<times> pyval) list" where
  "GamePadController_get_state self =
     (case getattr self ''lock'' of
        Inl e \<Rightarrow> Inl e
      | Inr l \<Rightarrow> read_all state_entries self)"

definition GamePadController_init ::
  "(string \<times> pyval) list \<Rightarrow> bool \<Rightarrow> bool \<Rightarrow> exn + pyval" where
  \<comment> \<open>\<open>thread_attrs\<close>: the attributes \<open>threading.Thread.__init__\<close> has created.
      \<open>self.daemon = True\<close> goes through a property of \<open>Thread\<close>; it is kept as an attribute.\<close>
  "GamePadController_init thread_attrs print_events print_dongle_status =
     (let self =
        PyObject
          (put ''shutdown_flag'' (PyObject [])
          (put ''stop_thread'' (PyBool False)
          (put ''daemon'' (PyBool True)
          (put ''lock'' (PyObject [])
          (put ''ros_logger'' PyNone
          (put ''print_dongle_status'' (PyBool print_dongle_status)
          (put ''_i'' (PyInt 0)
          (put ''print_events'' (PyBool print_events) thread_attrs))))))))
      in case GamePadController_set_zero_state self of
           Inl e \<Rightarrow> Inl e
         | Inr self1 \<Rightarrow>
             (case GamePadController_get_state self1 of
                Inl e \<Rightarrow> Inl e
              | Inr st \<Rightarrow> setattr self1 ''gamepad_state'' (PyObject st)))"

definition schema_keys :: "string list" where
  \<comment> \<open>the keys of the snapshot, as section 6 of the spec enumerates them\<close>
  "schema_keys =
     [''middle_led_ring_button_pressed'',
      ''left_stick_x'',
      ''left_stick_y'',
      ''right_stick_x'',
      ''right_stick_y'',
      ''left_stick_button_pressed'',
      ''right_stick_button_pressed'',
      ''bottom_button_pressed'',
      ''top_button_pressed'',
      ''left_button_pressed'',
      ''right_button_pressed'',
      ''left_shoulder_button_pressed'',
      ''right_shoulder_button_pressed'',
      ''select_button_pressed'',
      ''start_button_pressed'',
      ''left_trigger_pulled'',
      ''right_trigger_pulled'',
      ''bottom_pad_pressed'',
      ''top_pad_pressed'',
      ''left_pad_pressed'',
      ''right_pad_pressed'']"

definition populated_gamepad :: pyval where
  \<comment> \<open>an instance that has the attributes \<open>get_state()\<close> reads, as the primitives of
      \<open>XboxController.__init__\<close> would give them\<close>
  "populated_gamepad =
     PyObject
       ((''lock'', PyObject []) #
        map (\<lambda>(k, a, b). (a, PyObject [(''x'', PyFloat (Finite 0)), (''y'', PyFloat (Finite 0)),
                                        (''pressed'', PyBool False), (''pulled'', PyFloat (Finite 0))]))
          state_entries)"

section \<open>Concrete inputs\<close>

text \<open>
  A telemetry line as the driver writes it (among its fields: the left stick fully left,
  the A button pressed, the left trigger fully pulled), a client that has read it, and two things a
  later \<open>refresh()\<close> may find on the pipe: a line of another length, and the end of the
  stream.
\<close>

definition telemetry_line :: string where
  "telemetry_line =
     ''X1:-32768 Y1:  1234  X2:     0 Y2: 32767  du:0 dd:1 dl:0 dr:0  back:0 guide:0 start:1  TL:0 TR:0  A:1 B:0 X:0 Y:0  LB:0 RB:1  LT:255 RT: 17'' @ [CHR 0x0A]"

definition telemetry_joystick :: Joystick where
  "telemetry_joystick =
     \<lparr>connectStatus = True, reading = telemetry_line, refreshTime = Finite 0,
      refreshDelay = Finite (4803839602528529 / 144115188075855872)\<rparr>"

definition short_line_obs :: refresh_obs where
  "short_line_obs = \<lparr>t_check = Finite 1, t_set = Finite 1, responses = [telemetry_line, ''ERROR'']\<rparr>"

definition end_of_file_obs :: refresh_obs where
  "end_of_file_obs = \<lparr>t_check = Finite 1, t_set = Finite 1, responses = [telemetry_line, []]\<rparr>"

text \<open>
  A parameter set of the arm, an \<open>Arm\<close> instance, what \<open>start()\<close> finds on a machine
  with no controller attached and no driver running, and the attributes \<open>threading.Thread.__init__\<close> creates in CPython.
\<close>

definition pitch_three_params :: ArmParams where
  "pitch_three_params =
     \<lparr>chain_pitch = Finite 3, chain_sprocket_teeth = Finite 1, gr_spur = Finite 1,
      safe_set_velocit = PyInt 0\<rparr>"

definition arm_instance :: pyval where
  "arm_instance = PyObject [(''name'', PyStr ''arm'')]"

definition no_controller_obs :: start_obs where
  "no_controller_obs =
     \<lparr>process_names = Inr [''systemd'', ''python3''], killall_raises = None,
      driver_popen_raises = None, driver_polls = [None, None, None]\<rparr>"

definition thread_attributes :: "(string \<times> pyval) list" where
  "thread_attributes =
     [(''_target'', PyNone), (''_name'', PyStr ''GamePadController''), (''_args'', PyNone),
      (''_kwargs'', PyNone), (''_daemonic'', PyBool False), (''_ident'', PyNone),
      (''_native_id'', PyNone), (''_tstate_lock'', PyNone), (''_started'', PyObject []),
      (''_is_stopped'', PyBool False), (''_initialized'', PyBool True),
      (''_stderr'', PyObject []), (''_invoke_excepthook'', PyObject [])]"

section \<open>Evaluation rules\<close>

lemma bit_length_zero: "bit_length 0 = 0"
  by (simp add: bit_length.simps)

lemma bit_length_pos: "0 < n \<Longrightarrow> bit_length n = Suc (bit_length (n div 2))"
  by (subst bit_length.simps) simp

lemmas round64_eval =
  round64_def ilog2_def pow2_def round_half_even_def bit_length_zero bit_length_pos Let_def

lemmas arm_eval =
  arm_round_trip_def translate_m_to_motor_rad_def motor_rad_to_translate_m_def
  arm_coefficient_def fdiv_def math_pi_def

section \<open>Rounding is exact on integers below \<open>2^53\<close>\<close>

lemma bit_length_bounds:
  "0 < n \<Longrightarrow> 2 ^ (bit_length n - 1) \<le> n \<and> n < 2 ^ bit_length n"
proof (induction n rule: bit_length.induct)
  case (1 n)
  show ?case
  proof (cases "n div 2 = 0")
    case True
    with "1.prems" have "n = 1" by (simp add: div_eq_0_iff)
    then show ?thesis by (simp add: bit_length_pos bit_length_zero)
  next
    case False
    then have pos: "0 < n div 2" by simp
    with "1.IH" "1.prems" have ih: "2 ^ (bit_length (n div 2) - 1) \<le> n div 2" "n div 2 < 2 ^ bit_length (n div 2)"
      by simp_all
    have bl: "bit_length n = Suc (bit_length (n div 2))" using "1.prems" by (rule bit_length_pos)
    have blpos: "0 < bit_length (n div 2)" using pos by (simp add: bit_length_pos)
    then obtain k where k: "bit_length (n div 2) = Suc k" by (cases "bit_length (n div 2)") simp_all
    from ih k have "2 * 2 ^ k \<le> 2 * (n div 2)" by simp
    also have "\<dots> \<le> n" by simp
    finally have lo: "2 ^ (bit_length n - 1) \<le> n" by (simp add: bl k)
    from ih(2) have "n div 2 + 1 \<le> 2 ^ bit_length (n div 2)" by simp
    then have "2 * (n div 2) + 2 \<le> 2 * 2 ^ bit_length (n div 2)" by simp
    moreover have "n < 2 * (n div 2) + 2" by arith
    ultimately have hi: "n < 2 ^ bit_length n" by (simp add: bl)
    from lo hi show ?thesis ..
  qed
qed

lemma round_half_even_of_int: "round_half_even (of_int k) = k"
  by (simp add: round_half_even_def)

lemma round64_of_int_exact:
  assumes "\<bar>n\<bar> < 2 ^ 53"
  shows "round64 (of_int n) = Finite (of_int n)"
proof (cases "n = 0")
  case True
  then show ?thesis by (simp add: round64_def)
next
  case False
  define m where "m = nat \<bar>n\<bar>"
  have mpos: "0 < m" using False by (simp add: m_def)
  have mlt: "m < 2 ^ 53" using assms by (simp add: m_def nat_less_iff)
  have abs_eq: "\<bar>real_of_int n\<bar> = real m" by (simp add: m_def)
  from bit_length_bounds [OF mpos]
  have lo: "2 ^ (bit_length m - 1) \<le> m" and hi: "m < 2 ^ bit_length m" by simp_all
  have blpos: "0 < bit_length m" using mpos by (simp add: bit_length_pos)
  have "(2::nat) ^ (bit_length m - 1) < 2 ^ 53" using lo mlt by (rule le_less_trans)
  then have ble: "bit_length m - 1 < 53" by (simp only: power_strict_increasing_iff)
  define k where "k = 53 - bit_length m"
  have kk: "bit_length m + k = 53" using ble blpos by (simp add: k_def)
  have il: "ilog2 (real m) = int (bit_length m) - 1"
    using mpos by (simp add: ilog2_def)
  have mx: "max (int (bit_length m) - 1) (- 1022) - 52 = - int k"
    using kk by simp
  have u: "pow2 (- int k) = 1 / 2 ^ k"
    by (auto simp: pow2_def)
  have q: "real m / (1 / 2 ^ k) = of_int (int m * 2 ^ k)" by simp
  have nov: "\<not> (2 ^ 1024 - 2 ^ 970 \<le> real m)"
  proof -
    have "real m < 2 ^ 53" using mlt by (metis of_nat_less_iff of_nat_numeral of_nat_power)
    moreover have "(2::real) ^ 53 \<le> 2 ^ 1024 - 2 ^ 970" by simp
    ultimately show ?thesis by simp
  qed
  have r: "of_int (round_half_even (real m / pow2 (max (ilog2 (real m)) (- 1022) - 52))) *
        pow2 (max (ilog2 (real m)) (- 1022) - 52) = real m"
    unfolding il mx u q round_half_even_of_int by simp
  have nz: "real_of_int n \<noteq> 0" using False by simp
  have sgn: "(if 0 < real_of_int n then real m else - real m) = real_of_int n"
    using abs_eq by (auto simp: abs_if split: if_splits)
  show ?thesis
    unfolding round64_def Let_def abs_eq r using nz nov sgn by simp
qed

lemma float_of_int_exact: "\<bar>n\<bar> < 2 ^ 53 \<Longrightarrow> float_of_int n = Inr (Finite (of_int n))"
  by (simp add: float_of_int_def round64_of_int_exact)

lemma float_of_int_overflow:
  "float_of_int n = Inl OverflowError \<longleftrightarrow> 2 ^ 1024 - 2 ^ 970 \<le> \<bar>real_of_int n\<bar>"
  by (simp add: float_of_int_def round64_def Let_def)

lemma float_sub_int_exact:
  assumes "\<bar>k\<bar> < 2 ^ 52" and "\<bar>d\<bar> < 2 ^ 52"
  shows "float_sub_int (Finite (of_int k)) d = Inr (Finite (of_int (k - d)))"
proof -
  have "\<bar>d\<bar> < 2 ^ 53" and kd: "\<bar>k - d\<bar> < 2 ^ 53" using assms by simp_all
  then have conv: "float_of_int d = Inr (Finite (of_int d))"
    by (simp add: float_of_int_exact)
  have "round64 (real_of_int k - real_of_int d) = Finite (real_of_int k - real_of_int d)"
    using round64_of_int_exact [OF kd] by simp
  with conv show ?thesis
    by (simp add: float_sub_int_def fsub_def fadd_def)
qed

lemma int_truediv_float_exact:
  assumes "\<bar>n\<bar> < 2 ^ 53"
  shows "int_truediv_float n (Finite y) =
           (if y = 0 then Inl ZeroDivisionError else Inr (round64 (of_int n / y)))"
  using assms by (simp add: int_truediv_float_def float_of_int_exact fdiv_def)

lemmas axisScale_eval =
  axisScale_def float_sub_int_def int_truediv_float_def float_of_int_def fsub_def fadd_def
  fdiv_def

section \<open>The relative error of rounding\<close>

text \<open>
  A real number in the normal range of binary64 is rounded to a finite float with a relative error
  of at most \<open>2^-53\<close>; the float is within a factor 2 of the number.
\<close>

lemma pow2_powi: "pow2 e = 2 powi e"
  by (simp add: pow2_def power_int_def field_simps)

lemma pow2_pos: "0 < pow2 e"
  by (simp add: pow2_powi)

lemma pow2_shift: "pow2 (e - 52) = pow2 e / 2 ^ 52"
  by (simp add: pow2_powi power_int_diff)

lemma ilog2_lower:
  assumes "0 < a"
  shows "pow2 (ilog2 a) \<le> a"
proof (cases "1 \<le> a")
  case True
  define n where "n = nat \<lfloor>a\<rfloor>"
  have npos: "0 < n" using True by (simp add: n_def)
  from bit_length_bounds [OF npos] have lo: "2 ^ (bit_length n - 1) \<le> n" by simp
  have blpos: "0 < bit_length n" using npos by (simp add: bit_length_pos)
  have "ilog2 a = int (bit_length n - 1)"
    using True blpos by (simp add: ilog2_def n_def)
  then have "pow2 (ilog2 a) = 2 ^ (bit_length n - 1)"
    by (simp add: pow2_def)
  also have "\<dots> \<le> real n"
    using lo by (metis of_nat_le_iff of_nat_numeral of_nat_power)
  also have "\<dots> \<le> a"
    using True by (simp add: n_def)
  finally show ?thesis .
next
  case False
  define m where "m = \<lceil>1 / a\<rceil>"
  define k where "k = bit_length (nat (m - 1))"
  have y: "1 < 1 / a" using assms False by simp
  then have m2: "2 \<le> m" unfolding m_def by linarith
  then have npos: "0 < nat (m - 1)" by simp
  from bit_length_bounds [OF npos] have hi: "nat (m - 1) < 2 ^ k" by (simp add: k_def)
  then have "m - 1 < 2 ^ k" using m2 by (simp add: nat_less_iff)
  then have "m \<le> 2 ^ k" by simp
  then have mk: "real_of_int m \<le> 2 ^ k" by (metis of_int_le_iff of_int_numeral of_int_power)
  have "1 / a \<le> real_of_int m" unfolding m_def by linarith
  then have "1 / a \<le> 2 ^ k" using mk by (rule order_trans)
  then have "1 / 2 ^ k \<le> a"
    using assms by (simp add: field_simps)
  moreover have "pow2 (ilog2 a) = 1 / 2 ^ k"
    using False by (auto simp: ilog2_def pow2_def k_def m_def)
  ultimately show ?thesis by simp
qed

lemma round_half_even_error: "\<bar>of_int (round_half_even z) - z\<bar> \<le> 1 / 2"
proof -
  have "of_int \<lfloor>z\<rfloor> \<le> z" "z < of_int \<lfloor>z\<rfloor> + 1" by linarith+
  then show ?thesis
    by (auto simp: round_half_even_def Let_def)
qed

lemma round64_relative_error:
  assumes "1 / 2 ^ 1022 \<le> \<bar>q\<bar>" and "\<bar>q\<bar> < 2 ^ 1024 - 2 ^ 970"
  shows "\<exists>r. round64 q = Finite r \<and> \<bar>r - q\<bar> \<le> \<bar>q\<bar> / 2 ^ 53"
proof -
  define a where "a = \<bar>q\<bar>"
  define E where "E = max (ilog2 a) (- 1022)"
  define u where "u = pow2 (E - 52)"
  define m where "m = round_half_even (a / u)"
  have "(0::real) < 1 / 2 ^ 1022" by simp
  with assms(1) have apos: "0 < a" unfolding a_def by linarith
  have qnz: "q \<noteq> 0" using apos by (auto simp: a_def)
  have "pow2 (- 1022) \<le> a" using assms(1) by (simp add: pow2_def a_def)
  with ilog2_lower [OF apos] have E: "pow2 E \<le> a"
    by (simp add: E_def max_def)
  have upos: "0 < u" by (simp add: u_def pow2_pos)
  have u2: "u = pow2 E / 2 ^ 52" by (simp add: u_def pow2_shift)
  have "\<bar>of_int m - a / u\<bar> \<le> 1 / 2" unfolding m_def by (rule round_half_even_error)
  then have "\<bar>of_int m - a / u\<bar> * u \<le> 1 / 2 * u"
    using upos by (simp add: mult_right_mono)
  moreover have "\<bar>of_int m - a / u\<bar> * u = \<bar>of_int m * u - a\<bar>"
    using upos by (simp add: abs_mult_pos [symmetric] field_simps del: abs_mult_pos)
  ultimately have "\<bar>of_int m * u - a\<bar> \<le> u / 2" by simp
  also have "u / 2 = pow2 E / 2 ^ 53" by (simp add: u2)
  also have "\<dots> \<le> a / 2 ^ 53" using E by (simp add: divide_right_mono)
  finally have err: "\<bar>of_int m * u - a\<bar> \<le> a / 2 ^ 53" .
  have r: "round64 q = Finite (if 0 < q then of_int m * u else - (of_int m * u))"
    using qnz assms(2) by (simp add: round64_def Let_def a_def E_def u_def m_def)
  have "\<bar>(if 0 < q then of_int m * u else - (of_int m * u)) - q\<bar> = \<bar>of_int m * u - a\<bar>"
  proof (cases "0 < q")
    case True
    then show ?thesis by (simp add: a_def)
  next
    case False
    then have "a = - q" by (simp add: a_def)
    then have "- (of_int m * u) - q = - (of_int m * u - a)" by simp
    then have "\<bar>- (of_int m * u) - q\<bar> = \<bar>of_int m * u - a\<bar>"
      by (simp only: abs_minus_cancel)
    with False show ?thesis by simp
  qed
  with err r show ?thesis by (auto simp: a_def)
qed

lemma round64_abs_bounds:
  assumes "1 / 2 ^ 1022 \<le> \<bar>q\<bar>" and "\<bar>q\<bar> < 2 ^ 1023"
  shows "\<exists>r. round64 q = Finite r \<and> \<bar>r - q\<bar> \<le> \<bar>q\<bar> / 2 ^ 53
           \<and> \<bar>q\<bar> / 2 \<le> \<bar>r\<bar> \<and> \<bar>r\<bar> \<le> 2 * \<bar>q\<bar>"
proof -
  have "(2::real) ^ 1023 \<le> 2 ^ 1024 - 2 ^ 970" by simp
  with assms(2) have "\<bar>q\<bar> < 2 ^ 1024 - 2 ^ 970" by simp
  from round64_relative_error [OF assms(1) this]
  obtain r where r: "round64 q = Finite r" "\<bar>r - q\<bar> \<le> \<bar>q\<bar> / 2 ^ 53" by blast
  have "\<bar>q\<bar> / 2 ^ 53 \<le> \<bar>q\<bar> / 2"
    by (rule divide_left_mono) simp_all
  with r(2) have "\<bar>r - q\<bar> \<le> \<bar>q\<bar> / 2" by simp
  then have "\<bar>q\<bar> / 2 \<le> \<bar>r\<bar>" "\<bar>r\<bar> \<le> 2 * \<bar>q\<bar>" by linarith+
  with r show ?thesis by blast
qed

lemma round64_pos_bounds:
  assumes "1 / 2 ^ 1022 \<le> l" and "l \<le> q" and "q \<le> h" and "h < 2 ^ 1023"
  shows "\<exists>r. round64 q = Finite r \<and> l / 2 \<le> r \<and> r \<le> 2 * h"
proof -
  have lpos: "(0::real) < 1 / 2 ^ 1022" by simp
  with assms have qpos: "0 < q" by linarith
  then have aq: "\<bar>q\<bar> = q" by simp
  have h1: "1 / 2 ^ 1022 \<le> \<bar>q\<bar>" and h2: "\<bar>q\<bar> < 2 ^ 1023" using assms aq by linarith+
  from round64_abs_bounds [OF h1 h2]
  obtain r where r: "round64 q = Finite r" "\<bar>r - q\<bar> \<le> \<bar>q\<bar> / 2 ^ 53" by blast
  have "\<bar>q\<bar> / 2 ^ 53 \<le> \<bar>q\<bar> / 2"
    by (rule divide_left_mono) simp_all
  with r(2) aq have "\<bar>r - q\<bar> \<le> q / 2" by simp
  then have "q / 2 \<le> r" "r \<le> 2 * q" using qpos by linarith+
  with assms(2,3) have "l / 2 \<le> r" "r \<le> 2 * h" by linarith+
  with r(1) show ?thesis by blast
qed

lemma product_bounds:
  fixes a b :: real
  assumes "0 < l1" "l1 \<le> a" "a \<le> h1" "0 < l2" "l2 \<le> b" "b \<le> h2"
  shows "l1 * l2 \<le> a * b \<and> a * b \<le> h1 * h2"
  using assms by (simp add: mult_mono)

lemma quotient_bounds:
  fixes a b :: real
  assumes "0 < l1" "l1 \<le> a" "a \<le> h1" "0 < l2" "l2 \<le> b" "b \<le> h2"
  shows "l1 / h2 \<le> a / b \<and> a / b \<le> h1 / l2"
  using assms by (simp add: frac_le)

section \<open>Joystick.refresh\<close>

lemma telemetry_line_length: "length telemetry_line = 140"
  by (simp add: telemetry_line_def)

lemma drain_zero_length: "[] \<in> set rs \<Longrightarrow> drain rs r = Inl (IOError disconnected_message)"
  by (induction rs arbitrary: r) auto

lemma drain_last: "[] \<notin> set rs \<Longrightarrow> rs \<noteq> [] \<Longrightarrow> drain rs r = Inr (last rs)"
  by (induction rs arbitrary: r) auto

text \<open>
  C7. A refresh that is due and meets a zero-length read while it drains the pipe raises
  the IOError "Xbox controller disconnected from USB", whatever the connection status
  was. The object keeps its reading and its status; only the time of the next refresh
  has moved.
\<close>

theorem refresh_zero_length_read_raises:
  assumes "flt (refreshTime j) (t_check obs)" and "[] \<in> set (responses obs)"
  shows "Joystick_refresh obs j =
           (Some (IOError disconnected_message),
            j\<lparr>refreshTime := fadd (t_set obs) (refreshDelay j)\<rparr>)"
proof -
  from assms(2) have "responses obs \<noteq> []" by auto
  with assms show ?thesis
    by (simp add: Joystick_refresh_def Let_def drain_zero_length)
qed

theorem refresh_zero_length_read_raises_witness:
  "flt (refreshTime telemetry_joystick) (t_check end_of_file_obs)
   \<and> [] \<in> set (responses end_of_file_obs)
   \<and> connectStatus telemetry_joystick
   \<and> fst (Joystick_refresh end_of_file_obs telemetry_joystick) = Some (IOError disconnected_message)"
proof -
  have due: "flt (refreshTime telemetry_joystick) (t_check end_of_file_obs)"
    by (simp add: telemetry_joystick_def end_of_file_obs_def flt_def)
  have eof: "[] \<in> set (responses end_of_file_obs)"
    by (simp add: end_of_file_obs_def)
  from refresh_zero_length_read_raises [OF due eof] due eof show ?thesis
    by (simp add: telemetry_joystick_def)
qed

text \<open>
  C6. A refresh that is due and whose last line is not empty and not 140 characters long
  (no zero-length read came before it) returns with \<open>connectStatus\<close> false and the stored
  reading as it was, so every accessor decodes the values it decoded before.
\<close>

theorem refresh_other_length_keeps_reading:
  assumes "flt (refreshTime j) (t_check obs)"
    and "responses obs \<noteq> []" and "[] \<notin> set (responses obs)"
    and "length (last (responses obs)) \<noteq> 140"
  shows "Joystick_refresh obs j =
           (None, j\<lparr>refreshTime := fadd (t_set obs) (refreshDelay j), connectStatus := False\<rparr>)
         \<and> connectStatus (snd (Joystick_refresh obs j)) = False
         \<and> reading (snd (Joystick_refresh obs j)) = reading j
         \<and> map (\<lambda>decode. decode (reading (snd (Joystick_refresh obs j)))) decoders
             = map (\<lambda>decode. decode (reading j)) decoders"
  using assms by (simp add: Joystick_refresh_def Let_def drain_last)

theorem refresh_other_length_keeps_reading_witness:
  "flt (refreshTime telemetry_joystick) (t_check short_line_obs)
   \<and> responses short_line_obs \<noteq> [] \<and> [] \<notin> set (responses short_line_obs)
   \<and> length (last (responses short_line_obs)) \<noteq> 140
   \<and> connectStatus telemetry_joystick
   \<and> connectStatus (snd (Joystick_refresh short_line_obs telemetry_joystick)) = False
   \<and> reading (snd (Joystick_refresh short_line_obs telemetry_joystick)) = telemetry_line"
proof -
  have due: "flt (refreshTime telemetry_joystick) (t_check short_line_obs)"
    by (simp add: telemetry_joystick_def short_line_obs_def flt_def)
  have ne: "responses short_line_obs \<noteq> []" and nz: "[] \<notin> set (responses short_line_obs)"
    and len: "length (last (responses short_line_obs)) \<noteq> 140"
    by (simp_all add: short_line_obs_def telemetry_line_def)
  from refresh_other_length_keeps_reading [OF due ne nz len] due ne nz len show ?thesis
    by (simp add: telemetry_joystick_def)
qed

section \<open>Joystick.axisScale\<close>

text \<open>
  C8, as the claim states it, fails where the selected denominator is zero: a deadzone of
  32768 with a raw value of -32768 (the lowest 16 bit reading) divides by
  \<open>32768.0 - 32768\<close>.
\<close>

theorem axisScale_counterexample: "axisScale (- 32768) 32768 = Inl ZeroDivisionError"
  by (simp add: axisScale_eval round64_eval)

text \<open>
  C8, amended. For raw values and deadzones of magnitude below \<open>2^52\<close> (every 16 bit
  reading is), \<open>axisScale\<close> returns 0.0 when \<open>|r| < d\<close>; otherwise, for \<open>r < 0\<close>, the float
  nearest to \<open>(r + d) / (32768 - d)\<close>, and for \<open>r \<ge> 0\<close> the float nearest to
  \<open>(r - d) / (32767 - d)\<close>, except that it raises ZeroDivisionError when that denominator
  is zero (\<open>d = 32768\<close>, \<open>d = 32767\<close>). With the default deadzone the full deflections give
  exactly 1.0 and -1.0, and -3999, 0 and 3999 give 0.0.
\<close>

theorem axisScale_rule:
  assumes "\<bar>r\<bar> < 2 ^ 52" and "\<bar>d\<bar> < 2 ^ 52"
  shows "axisScale r d =
           (if \<bar>r\<bar> < d then Inr (Finite 0)
            else if r < 0
            then (if d = 32768 then Inl ZeroDivisionError
                  else Inr (round64 ((of_int r + of_int d) / (32768 - of_int d))))
            else (if d = 32767 then Inl ZeroDivisionError
                  else Inr (round64 ((of_int r - of_int d) / (32767 - of_int d)))))
         \<and> axisScale 32767 4000 = Inr (Finite 1)
         \<and> axisScale (- 32768) 4000 = Inr (Finite (- 1))
         \<and> axisScale (- 3999) 4000 = Inr (Finite 0)
         \<and> axisScale 0 4000 = Inr (Finite 0)
         \<and> axisScale 3999 4000 = Inr (Finite 0)"
proof -
  have a: "float_sub_int (Finite 32768) d = Inr (Finite (of_int (32768 - d)))"
    using float_sub_int_exact [of 32768 d] assms by simp
  have b: "float_sub_int (Finite 32767) d = Inr (Finite (of_int (32767 - d)))"
    using float_sub_int_exact [of 32767 d] assms by simp
  have c: "\<bar>r + d\<bar> < 2 ^ 53" "\<bar>r - d\<bar> < 2 ^ 53" using assms by simp_all
  have general: "axisScale r d =
           (if \<bar>r\<bar> < d then Inr (Finite 0)
            else if r < 0
            then (if d = 32768 then Inl ZeroDivisionError
                  else Inr (round64 ((of_int r + of_int d) / (32768 - of_int d))))
            else (if d = 32767 then Inl ZeroDivisionError
                  else Inr (round64 ((of_int r - of_int d) / (32767 - of_int d)))))"
    by (simp add: axisScale_def a b int_truediv_float_exact [OF c(1)] int_truediv_float_exact [OF c(2)])
  have v1: "axisScale 32767 4000 = Inr (Finite 1)"
    by (simp add: axisScale_eval round64_eval)
  have v2: "axisScale (- 32768) 4000 = Inr (Finite (- 1))"
    by (simp add: axisScale_eval round64_eval)
  have v3: "axisScale (- 3999) 4000 = Inr (Finite 0)" "axisScale 0 4000 = Inr (Finite 0)"
    "axisScale 3999 4000 = Inr (Finite 0)"
    by (simp_all add: axisScale_def)
  from general v1 v2 v3 show ?thesis by simp
qed

theorem axisScale_rule_witness:
  "\<bar>20000 :: int\<bar> < 2 ^ 52 \<and> \<bar>4000 :: int\<bar> < 2 ^ 52
   \<and> axisScale 20000 4000 = Inr (Finite (5009739912950807 / 9007199254740992))
   \<and> axisScale (- 32768) 32768 = Inl ZeroDivisionError"
proof -
  have h: "\<bar>20000 :: int\<bar> < 2 ^ 52" "\<bar>4000 :: int\<bar> < 2 ^ 52" "\<bar>- 32768 :: int\<bar> < 2 ^ 52" "\<bar>32768 :: int\<bar> < 2 ^ 52"
    by simp_all
  have rnd: "round64 (16000 / 28767) = Finite (5009739912950807 / 9007199254740992)"
    by (simp add: round64_eval)
  from axisScale_rule [OF h(1) h(2)] axisScale_rule [OF h(3) h(4)] rnd show ?thesis
    by simp
qed

section \<open>The reading of a Joystick is always 140 characters long\<close>






lemma wait_for_controller_untouched:
  "wait_for_controller polls found j = Inr (f, j') \<Longrightarrow> \<not> connectStatus j'
     \<Longrightarrow> reading j' = reading j"
proof (induction polls arbitrary: found j)
  case Nil
  then show ?case by simp
next
  case (Cons poll polls)
  show ?case
  proof (cases found)
    case True
    with Cons.prems show ?thesis by simp
  next
    case False
    show ?thesis
    proof (cases poll)
      case None
      with False Cons show ?thesis by simp
    next
      case (Some response)
      show ?thesis
      proof (cases "length response = 140")
        case True
        with False Some Cons.prems
        have w: "wait_for_controller polls True (j\<lparr>connectStatus := True, reading := response\<rparr>) = Inr (f, j')"
          by (simp add: Let_def split: if_splits)
        have "j' = j\<lparr>connectStatus := True, reading := response\<rparr>"
          using w by (cases polls) simp_all
        with Cons.prems(2) show ?thesis by simp
      next
        case len: False
        with False Some Cons.prems
        have "wait_for_controller polls (py_lower (py_slice 0 12 response) = ''press ctrl-c'') j = Inr (f, j')"
          by (simp add: Let_def split: if_splits)
        with Cons.IH Cons.prems(2) show ?thesis by blast
      qed
    qed
  qed
qed

lemma Joystick_init_before_telemetry:
  "Joystick_init popen_raises polls refreshRate = Inr j \<Longrightarrow> \<not> connectStatus j
     \<Longrightarrow> reading j = replicate 140 CHR ''0''"
  by (auto simp: Joystick_init_def split: option.splits sum.splits if_splits prod.splits
      dest!: wait_for_controller_untouched)




section \<open>Trigger\<close>

lemmas trigger_eval =
  Trigger_update_def Trigger_init_def py_int_of_def int_truediv_float_def float_of_int_def
  fdiv_def flt_def

text \<open>
  C9, as the claim states it ("for every state value ... state divided by the divisor"),
  fails in two ways. The state goes through \<open>int()\<close> first, so a state that is not an
  integer is truncated: \<open>update(0.5)\<close> sets \<open>pulled\<close> to 0.0, not to \<open>0.5 / 255\<close>. And an
  integer too large to convert to a float makes the division raise OverflowError, with
  \<open>pulled\<close> not assigned.
\<close>

theorem Trigger_update_counterexample:
  "Trigger_update (PyFloat (Finite (1 / 2))) (Trigger_init False) =
     Inr \<lparr>Trigger_norm = Finite 255, Trigger_pulled = PyFloat (Finite 0)\<rparr>
   \<and> Trigger_update (PyInt (2 ^ 1024)) (Trigger_init False) = Inl OverflowError"
  by (simp add: trigger_eval round64_eval)

text \<open>
  C9, amended. The divisor is 1023 with the 10 bit flag and 255 without. For every state
  for which \<open>int(state)\<close> is an integer \<open>n\<close> (an integer state is its own) that converts to
  a float \<open>x\<close> (every \<open>n\<close> below \<open>2^1024 - 2^970\<close> in magnitude does, and \<open>x\<close> is \<open>n\<close> itself
  below \<open>2^53\<close>), \<open>update\<close> sets \<open>pulled\<close> to the float quotient of \<open>x\<close> by the divisor,
  replaced by 1.0 when it is greater than 1.0, whatever \<open>pulled\<close> was before;
  \<open>update(300)\<close> on an 8 bit trigger gives 1.0.
\<close>

theorem Trigger_update_clamped:
  assumes "py_int_of state = Inr n" and "float_of_int n = Inr (Finite x)"
  shows "Trigger_norm (Trigger_init True) = Finite 1023
         \<and> Trigger_norm (Trigger_init False) = Finite 255
         \<and> py_int_of (PyInt n) = Inr n
         \<and> Trigger_update state ((Trigger_init xbox_one)\<lparr>Trigger_pulled := p\<rparr>) =
             Inr ((Trigger_init xbox_one)
                    \<lparr>Trigger_pulled :=
                       PyFloat (let v = round64 (x / (if xbox_one then 1023 else 255))
                                in if flt (Finite 1) v then Finite 1 else v)\<rparr>)
         \<and> Trigger_update (PyInt 300) (Trigger_init False) =
             Inr \<lparr>Trigger_norm = Finite 255, Trigger_pulled = PyFloat (Finite 1)\<rparr>"
proof -
  have "Trigger_update (PyInt 300) (Trigger_init False) =
          Inr \<lparr>Trigger_norm = Finite 255, Trigger_pulled = PyFloat (Finite 1)\<rparr>"
    by (simp add: trigger_eval round64_eval)
  moreover have "py_int_of (PyInt n) = Inr n"
    by (simp add: py_int_of_def)
  ultimately show ?thesis using assms
    by (simp add: Trigger_update_def Trigger_init_def int_truediv_float_def fdiv_def flt_def
        Let_def)
qed

theorem Trigger_update_clamped_witness:
  "py_int_of (PyInt 128) = Inr 128 \<and> float_of_int 128 = Inr (Finite 128)
   \<and> Trigger_update (PyInt 128) ((Trigger_init False)\<lparr>Trigger_pulled := PyFloat (Finite 1)\<rparr>) =
       Inr \<lparr>Trigger_norm = Finite 255,
            Trigger_pulled = PyFloat (Finite (282578800148737 / 562949953421312))\<rparr>
   \<and> Trigger_update (PyInt 300) (Trigger_init False) =
       Inr \<lparr>Trigger_norm = Finite 255, Trigger_pulled = PyFloat (Finite 1)\<rparr>"
proof -
  have i: "py_int_of (PyInt 128) = Inr 128"
    by (simp add: py_int_of_def)
  have a: "float_of_int 128 = Inr (Finite 128)"
    by (simp add: float_of_int_def round64_eval)
  have c: "round64 (128 / 255) = Finite (282578800148737 / 562949953421312)"
    by (simp add: round64_eval)
  from Trigger_update_clamped [OF i a, where xbox_one = False and p = "PyFloat (Finite 1)"] a c
  show ?thesis
    by (simp add: Trigger_init_def flt_def Let_def)
qed

section \<open>The arm's unit conversions\<close>

text \<open>
  The coefficient \<open>chain_pitch * chain_sprocket_teeth / gr_spur / (math.pi * 2)\<close> of parameters
  between \<open>2^-100\<close> and \<open>2^100\<close> is a finite positive float between \<open>2^-306\<close> and
  \<open>2^301\<close>.
\<close>

lemma two_pi: "fmul math_pi (Finite 2) = Finite (884279719003555 / 140737488355328)"
  by (simp add: fmul_def math_pi_def round64_eval)

lemma arm_coefficient_bounds:
  assumes "chain_pitch p = Finite a" "1 / 2 ^ 100 \<le> a" "a \<le> 2 ^ 100"
    and "chain_sprocket_teeth p = Finite t" "1 / 2 ^ 100 \<le> t" "t \<le> 2 ^ 100"
    and "gr_spur p = Finite g" "1 / 2 ^ 100 \<le> g" "g \<le> 2 ^ 100"
  shows "\<exists>c. arm_coefficient p = Inr (Finite c) \<and> 1 / 2 ^ 306 \<le> c \<and> c \<le> 2 ^ 301"
proof -
  have "1 / 2 ^ 100 * (1 / 2 ^ 100) \<le> a * t \<and> a * t \<le> 2 ^ 100 * 2 ^ 100"
    using assms by (intro product_bounds) simp_all
  then have q1: "1 / 2 ^ 200 \<le> a * t" "a * t \<le> 2 ^ 200" by simp_all
  have "(1::real) / 2 ^ 1022 \<le> 1 / 2 ^ 200" and "(2::real) ^ 200 < 2 ^ 1023" by simp_all
  from round64_pos_bounds [OF this(1) q1 this(2)]
  obtain A where A: "round64 (a * t) = Finite A" "1 / 2 ^ 200 / 2 \<le> A" "A \<le> 2 * 2 ^ 200"
    by blast
  then have A': "1 / 2 ^ 201 \<le> A" "A \<le> 2 ^ 201" by simp_all
  have "1 / 2 ^ 201 / 2 ^ 100 \<le> A / g \<and> A / g \<le> 2 ^ 201 / (1 / 2 ^ 100)"
    using assms A' by (intro quotient_bounds) simp_all
  then have q2: "1 / 2 ^ 301 \<le> A / g" "A / g \<le> 2 ^ 301" by simp_all
  have "(1::real) / 2 ^ 1022 \<le> 1 / 2 ^ 301" and "(2::real) ^ 301 < 2 ^ 1023" by simp_all
  from round64_pos_bounds [OF this(1) q2 this(2)]
  obtain B where B: "round64 (A / g) = Finite B" "1 / 2 ^ 301 / 2 \<le> B" "B \<le> 2 * 2 ^ 301"
    by blast
  then have B': "1 / 2 ^ 302 \<le> B" "B \<le> 2 ^ 302" by simp_all
  define tau :: real where "tau = 884279719003555 / 140737488355328"
  have tau: "4 \<le> tau" "tau \<le> 8" by (simp_all add: tau_def)
  have "1 / 2 ^ 302 / 8 \<le> B / tau \<and> B / tau \<le> 2 ^ 302 / 4"
    using tau B' by (intro quotient_bounds) simp_all
  then have q3: "1 / 2 ^ 305 \<le> B / tau" "B / tau \<le> 2 ^ 300" by simp_all
  have "(1::real) / 2 ^ 1022 \<le> 1 / 2 ^ 305" and "(2::real) ^ 300 < 2 ^ 1023" by simp_all
  from round64_pos_bounds [OF this(1) q3 this(2)]
  obtain c where c: "round64 (B / tau) = Finite c" "1 / 2 ^ 305 / 2 \<le> c" "c \<le> 2 * 2 ^ 300"
    by blast
  then have c': "1 / 2 ^ 306 \<le> c" "c \<le> 2 ^ 301" by simp_all
  have "(0::real) < 1 / 2 ^ 100" by simp
  with assms(8) have gnz: "g \<noteq> 0" by linarith
  have m: "fmul (chain_pitch p) (chain_sprocket_teeth p) = Finite A"
    using assms(1,4) A(1) by (simp add: fmul_def)
  have taunz: "tau \<noteq> 0" using tau by linarith
  have "arm_coefficient p = Inr (Finite c)"
    unfolding arm_coefficient_def m two_pi
    using assms(7) B(1) c(1) gnz taunz by (simp add: fdiv_def tau_def)
  with c' show ?thesis by blast
qed

text \<open>
  Near the top of the float range the division overflows: with \<open>chain_pitch = 3.0\<close> and the
  other two parameters 1.0 the coefficient is below 1, \<open>2^1023 / coefficient\<close> is \<open>inf\<close>, and so
  is the product with the coefficient. A bound on the error of the round trip therefore needs a
  bound on the magnitude of the position.
\<close>

lemma arm_round_trip_overflow:
  "arm_round_trip pitch_three_params (Finite (2 ^ 1023)) = Inr PosInf"
  by (simp add: pitch_three_params_def arm_eval fmul_def round64_eval)

text \<open>
  C5, as the claim states it, fails by rounding. With \<open>chain_pitch = 3.0\<close> and the other two
  parameters 1.0 the coefficient is \<open>2150310427208497 / 2^52\<close>; \<open>0.5 / coefficient\<close> is
  rounded to \<open>4716158501352293 / 2^52\<close>, and the product with the coefficient is rounded to
  \<open>0.49999999999999994\<close>, the float below 0.5.
\<close>

theorem arm_round_trip_counterexample:
  "arm_round_trip pitch_three_params (Finite (1 / 2)) =
     Inr (Finite (9007199254740991 / 18014398509481984))
   \<and> \<not> feq (Finite (9007199254740991 / 18014398509481984)) (Finite (1 / 2))"
  by (simp add: pitch_three_params_def arm_eval fmul_def round64_eval feq_def)

text \<open>
  C5, amended. Let the three parameters \<open>chain_pitch\<close>, \<open>chain_sprocket_teeth\<close> and
  \<open>gr_spur\<close> be finite floats between \<open>2^-100\<close> and \<open>2^100\<close>, and let the position
  \<open>x\<close> be zero or of a magnitude between \<open>2^-700\<close> and \<open>2^700\<close>. Then converting \<open>x\<close> to
  an angle and back raises nothing and returns a finite float \<open>r\<close> that differs from \<open>x\<close> by at
  most \<open>\<bar>x\<bar> * (2^-52 + 2^-106)\<close>: the two roundings of the division and of the multiplication
  are the whole error, and a zero position is returned as zero.
\<close>

theorem arm_round_trip_error_bound:
  assumes "chain_pitch p = Finite a" "1 / 2 ^ 100 \<le> a" "a \<le> 2 ^ 100"
    and "chain_sprocket_teeth p = Finite t" "1 / 2 ^ 100 \<le> t" "t \<le> 2 ^ 100"
    and "gr_spur p = Finite g" "1 / 2 ^ 100 \<le> g" "g \<le> 2 ^ 100"
    and "x = 0 \<or> (1 / 2 ^ 700 \<le> \<bar>x\<bar> \<and> \<bar>x\<bar> \<le> 2 ^ 700)"
  shows "\<exists>r. arm_round_trip p (Finite x) = Inr (Finite r)
           \<and> \<bar>r - x\<bar> \<le> \<bar>x\<bar> * (1 / 2 ^ 52 + 1 / 2 ^ 106)"
proof -
  from arm_coefficient_bounds [OF assms(1-9)]
  obtain c where c: "arm_coefficient p = Inr (Finite c)" "1 / 2 ^ 306 \<le> c" "c \<le> 2 ^ 301"
    by blast
  have "(0::real) < 1 / 2 ^ 306" by simp
  with c(2) have cpos: "0 < c" by linarith
  show ?thesis
  proof (cases "x = 0")
    case True
    have "arm_round_trip p (Finite x) = Inr (Finite 0)"
      using c(1) cpos True
      by (simp add: arm_round_trip_def translate_m_to_motor_rad_def motor_rad_to_translate_m_def
          fdiv_def fmul_def round64_def)
    with True show ?thesis by simp
  next
    case False
    with assms(10) have x: "1 / 2 ^ 700 \<le> \<bar>x\<bar>" "\<bar>x\<bar> \<le> 2 ^ 700" by simp_all
    have aq: "\<bar>x / c\<bar> = \<bar>x\<bar> / c" using cpos by simp
    have p700: "(0::real) < 1 / 2 ^ 700" and p306: "(0::real) < 1 / 2 ^ 306" by simp_all
    from quotient_bounds [OF p700 x p306 c(2,3)]
    have qb: "1 / 2 ^ 700 / 2 ^ 301 \<le> \<bar>x\<bar> / c" "\<bar>x\<bar> / c \<le> 2 ^ 700 / (1 / 2 ^ 306)"
      by blast+
    have n1: "(1::real) / 2 ^ 1022 \<le> 1 / 2 ^ 700 / 2 ^ 301"
      and n2: "2 ^ 700 / (1 / 2 ^ 306) < (2::real) ^ 1023" by simp_all
    have q4: "1 / 2 ^ 1022 \<le> \<bar>x / c\<bar>" "\<bar>x / c\<bar> < 2 ^ 1023"
      unfolding aq using qb n1 n2 by linarith+
    from round64_abs_bounds [OF q4]
    obtain d where d: "round64 (x / c) = Finite d" "\<bar>d - x / c\<bar> \<le> \<bar>x / c\<bar> / 2 ^ 53"
      "\<bar>x / c\<bar> / 2 \<le> \<bar>d\<bar>" "\<bar>d\<bar> \<le> 2 * \<bar>x / c\<bar>" by blast
    have cx: "c * \<bar>x / c\<bar> = \<bar>x\<bar>" using cpos by (simp add: aq)
    have q5abs: "c * \<bar>d\<bar> = \<bar>c * d\<bar>" using cpos by (simp add: abs_mult)
    have cle: "0 \<le> c" using cpos by simp
    have "c * (\<bar>x / c\<bar> / 2) \<le> c * \<bar>d\<bar>"
      using d(3) cle by (rule mult_left_mono)
    moreover have "c * (\<bar>x / c\<bar> / 2) = c * \<bar>x / c\<bar> / 2" by simp
    ultimately have lo5: "\<bar>x\<bar> / 2 \<le> \<bar>c * d\<bar>" by (simp only: cx q5abs)
    have "c * \<bar>d\<bar> \<le> c * (2 * \<bar>x / c\<bar>)"
      using d(4) cle by (rule mult_left_mono)
    moreover have "c * (2 * \<bar>x / c\<bar>) = 2 * (c * \<bar>x / c\<bar>)" by simp
    ultimately have hi5: "\<bar>c * d\<bar> \<le> 2 * \<bar>x\<bar>" by (simp only: cx q5abs)
    have n3: "(1::real) / 2 ^ 1022 \<le> 1 / 2 ^ 700 / 2" and n4: "2 * (2::real) ^ 700 < 2 ^ 1023"
      by simp_all
    have "1 / 2 ^ 700 / 2 \<le> \<bar>x\<bar> / 2"
      using x(1) by (rule divide_right_mono) simp
    with n3 have "1 / 2 ^ 1022 \<le> \<bar>x\<bar> / 2" by (rule order_trans)
    then have q5l: "1 / 2 ^ 1022 \<le> \<bar>c * d\<bar>" using lo5 by (rule order_trans)
    have "2 * \<bar>x\<bar> \<le> 2 * 2 ^ 700"
      using x(2) by (rule mult_left_mono) simp
    then have "2 * \<bar>x\<bar> < 2 ^ 1023" using n4 by (rule le_less_trans)
    with hi5 have q5h: "\<bar>c * d\<bar> < 2 ^ 1023" by (rule le_less_trans)
    note q5 = q5l q5h
    from round64_abs_bounds [OF q5]
    obtain r where r: "round64 (c * d) = Finite r" "\<bar>r - c * d\<bar> \<le> \<bar>c * d\<bar> / 2 ^ 53"
      by blast
    have "c * d - x = c * (d - x / c)" using cpos by (simp add: algebra_simps)
    then have "\<bar>c * d - x\<bar> = \<bar>c * (d - x / c)\<bar>" by simp
    also have "\<dots> = c * \<bar>d - x / c\<bar>" using cpos by (simp only: abs_mult abs_of_pos)
    also have "\<dots> \<le> c * (\<bar>x / c\<bar> / 2 ^ 53)"
      using d(2) cle by (rule mult_left_mono)
    also have "\<dots> = c * \<bar>x / c\<bar> / 2 ^ 53" by simp
    also have "\<dots> = \<bar>x\<bar> / 2 ^ 53" by (simp only: cx)
    finally have e1: "\<bar>c * d - x\<bar> \<le> \<bar>x\<bar> / 2 ^ 53" .
    then have "\<bar>c * d\<bar> \<le> \<bar>x\<bar> + \<bar>x\<bar> / 2 ^ 53" by linarith
    then have "\<bar>c * d\<bar> / 2 ^ 53 \<le> (\<bar>x\<bar> + \<bar>x\<bar> / 2 ^ 53) / 2 ^ 53"
      by (simp add: divide_right_mono)
    with r(2) have e2: "\<bar>r - c * d\<bar> \<le> (\<bar>x\<bar> + \<bar>x\<bar> / 2 ^ 53) / 2 ^ 53" by linarith
    have "\<bar>r - x\<bar> \<le> \<bar>r - c * d\<bar> + \<bar>c * d - x\<bar>" by linarith
    also have "\<dots> \<le> (\<bar>x\<bar> + \<bar>x\<bar> / 2 ^ 53) / 2 ^ 53 + \<bar>x\<bar> / 2 ^ 53"
      using e1 e2 by linarith
    also have "\<dots> = \<bar>x\<bar> * (1 / 2 ^ 52 + 1 / 2 ^ 106)"
      by (simp add: field_simps)
    finally have bound: "\<bar>r - x\<bar> \<le> \<bar>x\<bar> * (1 / 2 ^ 52 + 1 / 2 ^ 106)" .
    have cnz: "c \<noteq> 0" using cpos by simp
    have "arm_round_trip p (Finite x) = Inr (Finite r)"
      using c(1) cnz d(1) r(1)
      by (simp add: arm_round_trip_def translate_m_to_motor_rad_def motor_rad_to_translate_m_def
          fdiv_def fmul_def)
    with bound show ?thesis by blast
  qed
qed

theorem arm_round_trip_error_bound_witness:
  "chain_pitch pitch_three_params = Finite 3 \<and> 1 / 2 ^ 100 \<le> (3::real) \<and> (3::real) \<le> 2 ^ 100
   \<and> chain_sprocket_teeth pitch_three_params = Finite 1 \<and> gr_spur pitch_three_params = Finite 1
   \<and> 1 / 2 ^ 100 \<le> (1::real) \<and> (1::real) \<le> 2 ^ 100
   \<and> 1 / 2 ^ 700 \<le> \<bar>1 / 2 :: real\<bar> \<and> \<bar>1 / 2 :: real\<bar> \<le> 2 ^ 700
   \<and> arm_round_trip pitch_three_params (Finite (1 / 2)) =
       Inr (Finite (9007199254740991 / 18014398509481984))
   \<and> \<bar>9007199254740991 / 18014398509481984 - 1 / 2 :: real\<bar> \<le> \<bar>1 / 2\<bar> * (1 / 2 ^ 52 + 1 / 2 ^ 106)"
proof -
  have pa: "chain_pitch pitch_three_params = Finite 3" "1 / 2 ^ 100 \<le> (3::real)" "(3::real) \<le> 2 ^ 100"
    and pt: "chain_sprocket_teeth pitch_three_params = Finite 1" "1 / 2 ^ 100 \<le> (1::real)" "(1::real) \<le> 2 ^ 100"
    and pg: "gr_spur pitch_three_params = Finite 1"
    and px: "1 / 2 = (0::real) \<or> (1 / 2 ^ 700 \<le> \<bar>1 / 2 :: real\<bar> \<and> \<bar>1 / 2 :: real\<bar> \<le> 2 ^ 700)"
    by (simp_all add: pitch_three_params_def)
  have v: "arm_round_trip pitch_three_params (Finite (1 / 2)) =
       Inr (Finite (9007199254740991 / 18014398509481984))"
    by (simp add: pitch_three_params_def arm_eval fmul_def round64_eval)
  from arm_round_trip_error_bound [OF pa pt pg pt(2,3) px] v
  have "\<bar>9007199254740991 / 18014398509481984 - 1 / 2 :: real\<bar> \<le> \<bar>1 / 2\<bar> * (1 / 2 ^ 52 + 1 / 2 ^ 106)"
    by auto
  with pa pt pg v show ?thesis by simp
qed

section \<open>The snapshot schema\<close>

lemma XboxController_snapshot_keys: "map fst (XboxController_snapshot c) = schema_keys"
  by (simp add: XboxController_snapshot_def schema_keys_def)

lemma state_entries_keys: "map fst state_entries = schema_keys"
  by (simp add: state_entries_def schema_keys_def)

lemma read_all_keys: "read_all es self = Inr kvs \<Longrightarrow> map fst kvs = map fst es"
  by (induction es arbitrary: kvs) (auto split: sum.splits)

lemma schema_keys_distinct: "distinct schema_keys \<and> length schema_keys = 21"
  by (simp add: schema_keys_def)

lemma get_state_without_client:
  "joy c = None \<Longrightarrow> XboxController_get_state world c = (Inr (XboxController_snapshot c), c)"
  by (simp add: XboxController_get_state_def XboxController_update_def)

text \<open>
  C2, as the claim states it, fails on the number: the snapshot of a freshly constructed
  XboxController has 21 keys, not 20.
\<close>

theorem snapshot_key_count_counterexample:
  "fst (XboxController_get_state idle_world XboxController_init) =
     Inr (XboxController_snapshot XboxController_init)
   \<and> card (set (map fst (XboxController_snapshot XboxController_init))) = 21"
proof -
  have "joy XboxController_init = None" by (simp add: XboxController_init_def)
  then have "fst (XboxController_get_state idle_world XboxController_init) =
     Inr (XboxController_snapshot XboxController_init)"
    by (simp add: get_state_without_client)
  moreover have "card (set (map fst (XboxController_snapshot XboxController_init))) = 21"
    unfolding XboxController_snapshot_keys using schema_keys_distinct
    by (simp add: distinct_card)
  ultimately show ?thesis by simp
qed

text \<open>
  C2, amended. Whatever the state of the controller and whatever the driver sends, a
  snapshot that \<open>XboxController.get_state()\<close> returns has exactly the 21 keys that section 6
  of the spec enumerates, in that order, and so has every snapshot that
  \<open>GamePadController.get_state()\<close> returns: the two key sets are identical.
\<close>

theorem snapshot_schema_parity:
  "(fst (XboxController_get_state world c) = Inr s \<longrightarrow> map fst s = schema_keys)
   \<and> (GamePadController_get_state self = Inr t \<longrightarrow> map fst t = schema_keys)
   \<and> distinct schema_keys \<and> length schema_keys = 21"
proof -
  have "map fst s = schema_keys" if "fst (XboxController_get_state world c) = Inr s"
    using that
    by (auto simp: XboxController_get_state_def XboxController_snapshot_keys
        split: prod.splits option.splits)
  moreover have "map fst t = schema_keys" if "GamePadController_get_state self = Inr t"
    using that
    by (auto simp: GamePadController_get_state_def state_entries_keys
        split: sum.splits dest: read_all_keys)
  ultimately show ?thesis using schema_keys_distinct by blast
qed

lemma populated_gamepad_state:
  "GamePadController_get_state populated_gamepad =
     Inr (map (\<lambda>k. (k, if k \<in> set [''left_stick_x'', ''left_stick_y'', ''right_stick_x'',
                                   ''right_stick_y'', ''left_trigger_pulled'', ''right_trigger_pulled'']
                       then PyFloat (Finite 0) else PyBool False)) schema_keys)"
  by (simp add: GamePadController_get_state_def populated_gamepad_def state_entries_def
      schema_keys_def getattr_def get_nested_def)

theorem snapshot_schema_parity_witness:
  "fst (XboxController_get_state idle_world XboxController_init) =
     Inr (XboxController_snapshot XboxController_init)
   \<and> map fst (XboxController_snapshot XboxController_init) = schema_keys
   \<and> map_sum id (map fst) (GamePadController_get_state populated_gamepad) = Inr schema_keys
   \<and> length schema_keys = 21"
proof -
  have a: "fst (XboxController_get_state idle_world XboxController_init) =
     Inr (XboxController_snapshot XboxController_init)"
    by (simp add: get_state_without_client XboxController_init_def)
  from snapshot_schema_parity [of idle_world XboxController_init
      "XboxController_snapshot XboxController_init" populated_gamepad
      "map (\<lambda>k. (k, if k \<in> set [''left_stick_x'', ''left_stick_y'', ''right_stick_x'',
                                   ''right_stick_y'', ''left_trigger_pulled'', ''right_trigger_pulled'']
                       then PyFloat (Finite 0) else PyBool False)) schema_keys"]
    a populated_gamepad_state
  show ?thesis by simp
qed

section \<open>Constructing a GamePadController\<close>

lemma map_of_put: "map_of (put a x attrs) b = (if b = a then Some x else map_of attrs b)"
  by (induction attrs) auto

text \<open>
  C3. The claim says that constructing a GamePadController succeeds and leaves every field
  at zero. The constructor calls \<open>set_zero_state()\<close>, whose first statement assigns
  \<open>self.middle_led_ring_button.pressed\<close>; no statement of the class creates
  \<open>middle_led_ring_button\<close> (nor any other stick, button or trigger), so unless the base
  class created it the constructor raises AttributeError and no object exists to call
  \<open>get_state()\<close> on.
\<close>

theorem GamePadController_init_raises:
  assumes "map_of thread_attrs ''middle_led_ring_button'' = None"
  shows "GamePadController_init thread_attrs print_events print_dongle_status =
           Inl (AttributeError ''middle_led_ring_button'')"
  using assms
  by (simp add: GamePadController_init_def GamePadController_set_zero_state_def getattr_def
      map_of_put zero_assignments_def set_nested_def)

theorem GamePadController_init_raises_witness:
  "map_of thread_attributes ''middle_led_ring_button'' = None
   \<and> GamePadController_init thread_attributes False True =
       Inl (AttributeError ''middle_led_ring_button'')"
proof -
  have h: "map_of thread_attributes ''middle_led_ring_button'' = None"
    by (simp add: thread_attributes_def)
  from GamePadController_init_raises [OF h] h show ?thesis by simp
qed

section \<open>XboxController.start\<close>

text \<open>
  The handler of \<open>start()\<close> does what C1 describes: an IOError raised in the body of the
  \<open>try\<close> is swallowed, the client reference is cleared, \<open>True\<close> is returned, and the next
  \<open>get_state()\<close> of a fresh controller is the all-zero snapshot. But the body never
  constructs a client.
\<close>

lemma start_body_raises: "start_body obs \<noteq> Inr j"
  by (simp add: start_body_def load_global_def module_globals_def split: sum.splits option.splits)

lemma start_handler:
  "start_body obs = Inl (IOError m) \<Longrightarrow> XboxController_start obs c = (Inr True, c\<lparr>joy := None\<rparr>)"
  by (simp add: XboxController_start_def)

lemma quiescent_snapshot:
  "XboxController_snapshot XboxController_init =
     map (\<lambda>k. (k, if k \<in> set [''left_stick_x'', ''left_stick_y'', ''right_stick_x'',
                                   ''right_stick_y'', ''left_trigger_pulled'', ''right_trigger_pulled'']
                       then PyFloat (Finite 0) else PyBool False)) schema_keys"
  by (simp add: XboxController_snapshot_def XboxController_init_def schema_keys_def
      Stick_init_def Button_init_def Trigger_init_def)

lemma get_state_after_handler:
  "start_body obs = Inl (IOError m) \<Longrightarrow>
     fst (XboxController_get_state world (snd (XboxController_start obs XboxController_init))) =
       Inr (XboxController_snapshot XboxController_init)"
  by (simp add: start_handler get_state_without_client XboxController_snapshot_def)

text \<open>
  C1. The claim says that \<open>start()\<close> returns a truthy result when the client cannot be
  constructed. When \<open>psutil\<close> lists the processes and no stale driver has to be killed (or
  killing it succeeds), \<open>start()\<close> evaluates \<open>xbox.Joystick()\<close>; the module binds no name
  \<open>xbox\<close>, so NameError is raised, which \<open>except IOError\<close> does not catch: \<open>start()\<close>
  raises and returns nothing.
\<close>

theorem XboxController_start_raises_NameError:
  assumes "process_names obs = Inr names"
    and "''xboxdrv'' \<in> set names \<longrightarrow> killall_raises obs = None"
  shows "XboxController_start obs c = (Inl (NameError ''xbox''), c)"
  using assms
  by (simp add: XboxController_start_def start_body_def load_global_def module_globals_def)

theorem XboxController_start_raises_NameError_witness:
  "process_names no_controller_obs = Inr [''systemd'', ''python3'']
   \<and> ''xboxdrv'' \<notin> set [''systemd'', ''python3'']
   \<and> XboxController_start no_controller_obs XboxController_init =
       (Inl (NameError ''xbox''), XboxController_init)"
proof -
  have a: "process_names no_controller_obs = Inr [''systemd'', ''python3'']"
    by (simp add: no_controller_obs_def)
  have b: "''xboxdrv'' \<in> set [''systemd'', ''python3''] \<longrightarrow> killall_raises no_controller_obs = None"
    by simp
  from XboxController_start_raises_NameError [OF a b] a show ?thesis by simp
qed

section \<open>Arm.set_velocity\<close>

text \<open>
  \<open>home\<close> hands the receiver to the base method as its first argument.
\<close>

lemma Arm_home_passes_self:
  assumes "fparams f = (''self'', d) # ps"
  shows "Arm_home f self end_pos to_positive_stop measuring =
           (case bind_args ps []
                   [(''end_pos'', end_pos), (''to_positive_stop'', to_positive_stop),
                    (''measuring'', measuring)] of
              Inl e \<Rightarrow> Inl e
            | Inr env \<Rightarrow> Inr (fbody f ((''self'', self) # env)))"
  using assms
  by (simp add: Arm_home_def call_function_def split: sum.splits)

text \<open>
  C4. The claim says that \<open>v_m\<close> and the other parameters reach the base method unchanged.
  \<open>set_velocity\<close> calls the base method through the class without the receiver, so for
  a base method whose first parameter is \<open>self\<close> the value of \<open>v_m\<close> arrives as \<open>self\<close> and
  every other argument one parameter early: \<open>a_m\<close> as \<open>v_m\<close>, and so on.
\<close>

theorem Arm_set_velocity_binds_v_m_to_self:
  assumes "fparams f_safe = (''self'', d1) # ps1" and "fparams f = (''self'', d2) # ps2"
  shows "Arm_set_velocity params f_safe f self v_m a_m stiffness ctp_N ctn_N req ctp ctn =
           (if py_eq_one (safe_set_velocit params)
            then (case bind_args ps1 [a_m, stiffness, ctp_N, ctn_N, req, ctp, ctn] [] of
                    Inl e \<Rightarrow> Inl e
                  | Inr env \<Rightarrow> Inr (fbody f_safe ((''self'', v_m) # env)))
            else (case bind_args ps2 [a_m, stiffness, ctp_N, ctn_N, req, ctp, ctn] [] of
                    Inl e \<Rightarrow> Inl e
                  | Inr env \<Rightarrow> Inr (fbody f ((''self'', v_m) # env))))"
  using assms
  by (simp add: Arm_set_velocity_def call_function_def split: sum.splits)

theorem Arm_set_velocity_binds_v_m_to_self_witness:
  "fparams received_arguments = (''self'', None) # tl velocity_command_signature
   \<and> Arm_set_velocity pitch_three_params received_arguments received_arguments arm_instance
       (PyFloat (Finite (1 / 8))) PyNone PyNone PyNone PyNone (PyBool True) PyNone PyNone =
       Inr [(''self'', PyFloat (Finite (1 / 8))), (''v_m'', PyNone), (''a_m'', PyNone),
            (''stiffness'', PyNone), (''contact_thresh_pos_N'', PyNone),
            (''contact_thresh_neg_N'', PyBool True), (''req_calibration'', PyNone),
            (''contact_thresh_pos'', PyNone), (''contact_thresh_neg'', PyNone)]"
proof -
  have h: "fparams received_arguments = (''self'', None) # tl velocity_command_signature"
    by (simp add: received_arguments_def velocity_command_signature_def)
  from Arm_set_velocity_binds_v_m_to_self [OF h h] h show ?thesis
    by (simp add: received_arguments_def velocity_command_signature_def pitch_three_params_def
        py_eq_one_def)
qed

end
